theory Spec2Isabelle
  imports Main "HOL-Library.Word"
begin

section \<open>The record-set reconciler of the PowerDNS operator\<close>

text \<open>
  A shallow embedding of \<^verbatim>\<open>internal/controller/rrset_controller.go\<close>.
  One reconcile invocation talks to three collaborators: the Kubernetes API
  client (Get, Update, List, Status().Patch), the PowerDNS client
  (Records.Get, Records.Change, Records.Delete) and the metrics registry.
  None of them is part of the source file, so the model makes no assumption
  on what they answer: the answer of every call site is a field of an
  environment record, every call that is issued is appended to a trace, and
  the Kubernetes copy of the object is threaded as an explicit store that a
  successful write replaces.
\<close>

subsection \<open>Data\<close>

text \<open>\<^verbatim>\<open>metav1.Time\<close>; the value 0 stands for Go's zero time.\<close>

type_synonym time = nat

text \<open>
  Errors carry the kind that \<^verbatim>\<open>errors.IsNotFound\<close> and
  \<^verbatim>\<open>errors.IsConflict\<close> test, and the text that \<^verbatim>\<open>err.Error()\<close> returns.
\<close>

datatype errkind = NotFound | Conflict | OtherError

datatype err = Err errkind string

fun Error :: "err \<Rightarrow> string" where
  "Error (Err k m) = m"

fun IsNotFound :: "err \<Rightarrow> bool" where
  "IsNotFound (Err k m) = (k = NotFound)"

fun IsConflict :: "err \<Rightarrow> bool" where
  "IsConflict (Err k m) = (k = Conflict)"

text \<open>\<^verbatim>\<open>client.IgnoreNotFound\<close>: nil for a NotFound error, the error otherwise.\<close>

definition IgnoreNotFound :: "err \<Rightarrow> err option" where
  "IgnoreNotFound e = (if IsNotFound e then None else Some e)"

definition FAILED_STATUS :: string where
  "FAILED_STATUS = ''Failed''"

definition SUCCEEDED_STATUS :: string where
  "SUCCEEDED_STATUS = ''Succeeded''"

text \<open>
  The API types \<^verbatim>\<open>dnsv1alpha1.RRset\<close> and \<^verbatim>\<open>dnsv1alpha1.Zone\<close> are declared
  outside the source file; the records below hold the fields the controller
  reads or writes. A Go pointer field that may be nil is an option.
\<close>

record rrset_spec =
  spec_Name :: string
  spec_ZoneRef :: string
  spec_Type :: string
  spec_TTL :: "32 word"
  spec_Records :: "string list"
  spec_Comment :: "string option"

record rrset_status =
  LastUpdateTime :: "time option"
  DnsEntryName :: "string option"
  SyncStatus :: "string option"
  SyncErrorDescription :: "string option"

record rrset =
  Name :: string
  Namespace :: string
  DeletionTimestamp :: "time option"
  Finalizers :: "string list"
  OwnerReferences :: "string list"
  Spec :: rrset_spec
  Status :: rrset_status

record zone =
  zone_Name :: string

text \<open>\<^verbatim>\<open>powerdns.Comment\<close> and \<^verbatim>\<open>powerdns.RRset\<close> of the client library.\<close>

record pdns_comment =
  Content :: "string option"
  Account :: "string option"

record pdns_rrset =
  pdns_Name :: "string option"
  pdns_Type :: "string option"
  pdns_TTL :: "32 word option"
  pdns_Records :: "string list"
  pdns_Comments :: "pdns_comment list"

text \<open>The zero value of \<^verbatim>\<open>powerdns.RRset\<close> (\<^verbatim>\<open>var filteredRecord powerdns.RRset\<close>).\<close>

definition zero_RRset :: pdns_rrset where
  "zero_RRset = \<lparr>pdns_Name = None, pdns_Type = None, pdns_TTL = None,
     pdns_Records = [], pdns_Comments = []\<rparr>"

text \<open>
  \<^verbatim>\<open>ctrl.Result\<close>; \<^verbatim>\<open>RequeueAfter\<close> is a \<^verbatim>\<open>time.Duration\<close>, counted in
  nanoseconds.
\<close>

record result =
  Requeue :: bool
  RequeueAfter :: int

definition emptyResult :: result where
  "emptyResult = \<lparr>Requeue = False, RequeueAfter = 0\<rparr>"

definition Second :: int where
  "Second = 1000000000"

text \<open>
  What an invocation returns: the pair \<^verbatim>\<open>(ctrl.Result, error)\<close>, or a panic
  (dereferencing a nil \<^verbatim>\<open>*string\<close>).
\<close>

datatype ret = Return result "err option" | Panic

text \<open>Every call an invocation issues on a collaborator, with its arguments.\<close>

datatype event =
    K8sGet
  | K8sGetZone string string
  | K8sUpdate rrset
  | K8sList string
  | K8sStatusPatch rrset
  | PdnsGet string string string
  | PdnsChange string string string "32 word" "string list" "pdns_comment option"
  | PdnsDelete string string string
  | MetricsUpdate string string string string string
  | MetricsRemove string string

record outcome =
  out_ret :: ret
  out_store :: "rrset option"
  out_trace :: "event list"

subsection \<open>Collaborators\<close>

text \<open>
  Functions and constants of the repository and of its libraries that the
  controller calls and that are defined outside the source file. They are
  parameters of the model. \<^verbatim>\<open>ctrl.SetControllerReference\<close> reads and writes
  the controlled object through its owner references only, so its parameter
  maps the owner and the old references to an error or to the new references.
\<close>

record deps =
  FINALIZER_NAME :: string
  getRRsetName :: "rrset \<Rightarrow> string"
  makeCanonical :: "string \<Rightarrow> string"
  rrsetIsIdenticalToExternalRRset :: "rrset \<Rightarrow> pdns_rrset \<Rightarrow> bool"
  SetControllerReference :: "zone \<Rightarrow> string list \<Rightarrow> err + string list"

text \<open>
  The answers of the collaborators during one invocation, one field per call
  site of the source (each call site runs at most once per invocation), and
  the readings of \<^verbatim>\<open>time.Now()\<close> at its four call sites.
\<close>

record env =
  now_start :: time
  now_finalizer :: time
  now_deleted :: time
  now_changed :: time
  get_rrset_err :: "err option"
  get_zone :: "err + zone"
  update_orphan :: "err option"
  update_add :: "err option"
  records_delete :: "err option"
  update_remove :: "err option"
  list_rrsets :: "err + rrset list"
  patch_duplicate :: "err option"
  records_get :: "pdns_rrset list \<times> err option"
  records_change :: "err option"
  update_owner :: "err option"
  patch_status :: "err option"

subsection \<open>Library helpers\<close>

text \<open>\<^verbatim>\<open>controllerutil.ContainsFinalizer\<close>, \<^verbatim>\<open>AddFinalizer\<close>, \<^verbatim>\<open>RemoveFinalizer\<close>.\<close>

definition ContainsFinalizer :: "rrset \<Rightarrow> string \<Rightarrow> bool" where
  "ContainsFinalizer r f = (f \<in> set (Finalizers r))"

definition AddFinalizer :: "rrset \<Rightarrow> string \<Rightarrow> rrset" where
  "AddFinalizer r f =
     (if f \<in> set (Finalizers r) then r
      else r\<lparr>Finalizers := Finalizers r @ [f]\<rparr>)"

definition RemoveFinalizer :: "rrset \<Rightarrow> string \<Rightarrow> rrset" where
  "RemoveFinalizer r f = r\<lparr>Finalizers := removeAll f (Finalizers r)\<rparr>"

text \<open>\<^verbatim>\<open>(*metav1.Time).IsZero\<close>: a nil pointer or the zero time.\<close>

fun IsZero :: "time option \<Rightarrow> bool" where
  "IsZero None = True"
| "IsZero (Some t) = (t = 0)"

text \<open>
  \<^verbatim>\<open>r.Get(ctx, req.NamespacedName, rrset)\<close>: the failure the environment
  answers with, if any; otherwise NotFound when the store holds no object
  under the key, and the stored object when it does.
\<close>

definition k8s_Get :: "env \<Rightarrow> rrset option \<Rightarrow> err + rrset" where
  "k8s_Get e store =
     (case get_rrset_err e of
        Some er \<Rightarrow> Inl er
      | None \<Rightarrow> (case store of
                  None \<Rightarrow> Inl (Err NotFound ''rrset not found'')
                | Some r \<Rightarrow> Inr r))"

definition mk :: "ret \<Rightarrow> rrset option \<Rightarrow> event list \<Rightarrow> outcome" where
  "mk r s t = \<lparr>out_ret = r, out_store = s, out_trace = t\<rparr>"

subsection \<open>deleteExternalResources (lines 240-251)\<close>

definition deleteExternalResources ::
  "deps \<Rightarrow> env \<Rightarrow> zone \<Rightarrow> rrset \<Rightarrow> event list \<times> err option" where
  "deleteExternalResources d e z r =
     ([PdnsDelete (zone_Name z) (getRRsetName d r) (spec_Type (Spec r))],
      records_delete e)"

subsection \<open>createOrUpdateExternalResources (lines 254-288)\<close>

text \<open>
  The filtering loop of lines 265-271. \<^verbatim>\<open>*fr.Name\<close> panics on a nil name
  (the result \<open>None\<close>); without a match the zero value stays.
\<close>

fun filterRecords :: "string \<Rightarrow> pdns_rrset list \<Rightarrow> pdns_rrset option" where
  "filterRecords c [] = Some zero_RRset"
| "filterRecords c (fr # frs) =
     (case pdns_Name fr of
        None \<Rightarrow> None
      | Some n \<Rightarrow> if n = c then Some fr else filterRecords c frs)"

text \<open>
  Lines 276-287: the upsert. The comment option is set only when the desired
  spec has a comment; its account is the operator's fixed identity. The result
  is the call issued and \<^verbatim>\<open>(changed, err)\<close>.
\<close>

definition applyChange ::
  "deps \<Rightarrow> env \<Rightarrow> zone \<Rightarrow> rrset \<Rightarrow> event list \<times> bool \<times> err option" where
  "applyChange d e z r =
     (let name = getRRsetName d r;
          operatorAccount = ''powerdns-operator'';
          comments = (case spec_Comment (Spec r) of
                        None \<Rightarrow> None
                      | Some c \<Rightarrow> Some \<lparr>Content = Some c, Account = Some operatorAccount\<rparr>);
          t = [PdnsChange (zone_Name z) name (spec_Type (Spec r)) (spec_TTL (Spec r))
                 (spec_Records (Spec r)) comments]
      in case records_change e of
           Some er \<Rightarrow> (t, False, Some er)
         | None \<Rightarrow> (t, True, None))"

text \<open>\<^verbatim>\<open>err != nil && !errors.IsNotFound(err)\<close> of line 259.\<close>

fun fetchFailed :: "err option \<Rightarrow> bool" where
  "fetchFailed None = False"
| "fetchFailed (Some er) = (\<not> IsNotFound er)"

text \<open>
  The result is the trace of the calls and \<^verbatim>\<open>(changed, err)\<close>, or \<open>None\<close>
  for a panic.
\<close>

definition createOrUpdateExternalResources ::
  "deps \<Rightarrow> env \<Rightarrow> zone \<Rightarrow> rrset \<Rightarrow> event list \<times> (bool \<times> err option) option" where
  "createOrUpdateExternalResources d e z r =
     (let name = getRRsetName d r;
          t = [PdnsGet (zone_Name z) name (spec_Type (Spec r))]
      in case records_get e of
           (records, er) \<Rightarrow>
              if fetchFailed er then (t, Some (False, er))
              else (case filterRecords (makeCanonical d name) records of
                      None \<Rightarrow> (t, None)
                    | Some filteredRecord \<Rightarrow>
                        if pdns_Name filteredRecord \<noteq> None
                           \<and> rrsetIsIdenticalToExternalRRset d r filteredRecord
                        then (t, Some (False, None))
                        else (case applyChange d e z r of
                                (t', changed, er') \<Rightarrow> (t @ t', Some (changed, er')))))"

subsection \<open>ownObject (lines 291-300)\<close>

text \<open>The trace, the object after the call and the error.\<close>

definition ownObject ::
  "deps \<Rightarrow> env \<Rightarrow> zone \<Rightarrow> rrset \<Rightarrow> event list \<times> rrset \<times> err option" where
  "ownObject d e z r =
     (case SetControllerReference d z (OwnerReferences r) of
        Inl er \<Rightarrow> ([], r, Some er)
      | Inr refs \<Rightarrow>
          (let r' = r\<lparr>OwnerReferences := refs\<rparr>
           in ([K8sUpdate r'], r', update_owner e)))"

subsection \<open>Reconcile (lines 53-220)\<close>

text \<open>
  Lines 77-97: the lookup of the parent zone failed with \<open>er\<close>.
\<close>

definition Reconcile_zoneError ::
  "deps \<Rightarrow> env \<Rightarrow> rrset \<Rightarrow> rrset option \<Rightarrow> event list \<Rightarrow> err \<Rightarrow> outcome" where
  "Reconcile_zoneError d e rrset store tr er =
     (if IsNotFound er then
        (if ContainsFinalizer rrset (FINALIZER_NAME d) then
           (let rrset' = RemoveFinalizer rrset (FINALIZER_NAME d) in
            case update_orphan e of
              Some er' \<Rightarrow> mk (Return emptyResult (Some er')) store (tr @ [K8sUpdate rrset'])
            | None \<Rightarrow>
                mk (Return \<lparr>Requeue = False, RequeueAfter = 2 * Second\<rparr> None) (Some rrset')
                   (tr @ [K8sUpdate rrset', MetricsRemove (Name rrset') (Namespace rrset')]))
         else mk (Return \<lparr>Requeue = False, RequeueAfter = 2 * Second\<rparr> None) store tr)
      else mk (Return emptyResult (Some er)) store tr)"

text \<open>
  Lines 113-138: the object is being deleted. The assignment to
  \<^verbatim>\<open>lastUpdateTime\<close> of line 134 is never read.
\<close>

definition Reconcile_deletion ::
  "deps \<Rightarrow> env \<Rightarrow> zone \<Rightarrow> rrset \<Rightarrow> bool \<Rightarrow> rrset option \<Rightarrow> event list \<Rightarrow> outcome" where
  "Reconcile_deletion d e z rrset isInFailedStatus store tr =
     (if ContainsFinalizer rrset (FINALIZER_NAME d) then
        (case (if \<not> isInFailedStatus then deleteExternalResources d e z rrset
               else ([], None)) of
           (t1, Some er) \<Rightarrow> mk (Return emptyResult (Some er)) store (tr @ t1)
         | (t1, None) \<Rightarrow>
             (let rrset' = RemoveFinalizer rrset (FINALIZER_NAME d) in
              case update_remove e of
                Some er \<Rightarrow> mk (Return emptyResult (Some er)) store (tr @ t1 @ [K8sUpdate rrset'])
              | None \<Rightarrow>
                  mk (Return emptyResult None) (Some rrset')
                     (tr @ t1 @ [K8sUpdate rrset', MetricsRemove (Name rrset') (Namespace rrset')])))
      else mk (Return emptyResult None) store tr)"

text \<open>Lines 158-172: more than one object claims the name and type.\<close>

definition Reconcile_duplicate ::
  "deps \<Rightarrow> env \<Rightarrow> rrset \<Rightarrow> time \<Rightarrow> rrset option \<Rightarrow> event list \<Rightarrow> outcome" where
  "Reconcile_duplicate d e rrset lastUpdateTime store tr =
     (let rrset1 = rrset\<lparr>Status := (Status rrset)\<lparr>LastUpdateTime := Some lastUpdateTime\<rparr>\<rparr>;
          name = getRRsetName d rrset1;
          rrset2 = rrset1\<lparr>Status := (Status rrset1)
                     \<lparr>DnsEntryName := Some name,
                      SyncStatus := Some FAILED_STATUS,
                      SyncErrorDescription := Some ''Already existing RRset with the same FQDN''\<rparr>\<rparr>
      in case patch_duplicate e of
           Some er \<Rightarrow> mk (Return emptyResult (Some er)) store (tr @ [K8sStatusPatch rrset2])
         | None \<Rightarrow>
             mk (Return emptyResult None) (Some rrset2)
                (tr @ [K8sStatusPatch rrset2,
                       MetricsUpdate (getRRsetName d rrset2) (spec_Type (Spec rrset2)) FAILED_STATUS
                         (Name rrset2) (Namespace rrset2)]))"

text \<open>
  Lines 177-219: what follows the sync step, whose results are \<open>changed\<close>
  and \<open>er\<close>: ownership, status patch, metrics.
\<close>

definition Reconcile_status ::
  "deps \<Rightarrow> env \<Rightarrow> zone \<Rightarrow> rrset \<Rightarrow> time \<Rightarrow> bool \<Rightarrow> err option \<Rightarrow> rrset option
     \<Rightarrow> event list \<Rightarrow> outcome" where
  "Reconcile_status d e z rrset lastUpdateTime changed er store tr =
     (let syncStatus = (case er of None \<Rightarrow> None | Some x \<Rightarrow> Some FAILED_STATUS);
          syncErrorDescription = (case er of None \<Rightarrow> None | Some x \<Rightarrow> Some (Error x));
          lastUpdateTime = (if changed then now_changed e else lastUpdateTime)
      in case ownObject d e z rrset of
           (t2, rrset2, Some er2) \<Rightarrow>
             if IsConflict er2
             then mk (Return \<lparr>Requeue = True, RequeueAfter = 0\<rparr> None) store (tr @ t2)
             else mk (Return emptyResult (Some er2)) store (tr @ t2)
         | (t2, rrset2, None) \<Rightarrow>
             (let syncStatus = (case syncStatus of None \<Rightarrow> SUCCEEDED_STATUS | Some s \<Rightarrow> s);
                  rrset3 = rrset2\<lparr>Status := (Status rrset2)\<lparr>LastUpdateTime := Some lastUpdateTime\<rparr>\<rparr>;
                  rrset4 = rrset3\<lparr>Status := (Status rrset3)
                             \<lparr>DnsEntryName := Some (getRRsetName d rrset3),
                              SyncStatus := Some syncStatus,
                              SyncErrorDescription :=
                                (case syncErrorDescription of
                                   None \<Rightarrow> SyncErrorDescription (Status rrset3)
                                 | Some s \<Rightarrow> Some s)\<rparr>\<rparr>
              in case patch_status e of
                   Some er3 \<Rightarrow>
                     mk (Return emptyResult (Some er3)) (Some rrset2)
                        (tr @ t2 @ [K8sStatusPatch rrset4])
                 | None \<Rightarrow>
                     mk (Return emptyResult None) (Some rrset4)
                        (tr @ t2 @ [K8sStatusPatch rrset4,
                           MetricsUpdate (getRRsetName d rrset4) (spec_Type (Spec rrset4))
                             syncStatus (Name rrset4) (Namespace rrset4)])))"

text \<open>Lines 175-176: the sync step and what follows it.\<close>

definition Reconcile_sync ::
  "deps \<Rightarrow> env \<Rightarrow> zone \<Rightarrow> rrset \<Rightarrow> time \<Rightarrow> rrset option \<Rightarrow> event list \<Rightarrow> outcome" where
  "Reconcile_sync d e z rrset lastUpdateTime store tr =
     (case createOrUpdateExternalResources d e z rrset of
        (t1, None) \<Rightarrow> mk Panic store (tr @ t1)
      | (t1, Some (changed, er)) \<Rightarrow>
          Reconcile_status d e z rrset lastUpdateTime changed er store (tr @ t1))"

text \<open>
  Lines 141-173: the object is not being deleted and carries the finalizer.
\<close>

definition Reconcile_normal ::
  "deps \<Rightarrow> env \<Rightarrow> zone \<Rightarrow> rrset \<Rightarrow> time \<Rightarrow> bool \<Rightarrow> rrset option \<Rightarrow> event list \<Rightarrow> outcome" where
  "Reconcile_normal d e z rrset lastUpdateTime isInFailedStatus store tr =
     (if isInFailedStatus then
        mk (Return emptyResult None) store
           (tr @ [MetricsUpdate (getRRsetName d rrset) (spec_Type (Spec rrset)) FAILED_STATUS
                    (Name rrset) (Namespace rrset)])
      else
        (let key = getRRsetName d rrset @ ''/'' @ spec_Type (Spec rrset);
             tr1 = tr @ [K8sList key]
         in case list_rrsets e of
              Inl er \<Rightarrow> mk (Return emptyResult (Some er)) store tr1
            | Inr items \<Rightarrow>
                if length items > 1
                then Reconcile_duplicate d e rrset lastUpdateTime store tr1
                else Reconcile_sync d e z rrset lastUpdateTime store tr1))"

text \<open>
  The whole invocation. \<open>store\<close> is the copy of the object the API server
  holds under the request's key when the invocation starts. A successful
  \<^verbatim>\<open>Update\<close> or \<^verbatim>\<open>Status().Patch\<close> stores the object it is given, a failed
  one stores nothing. What the API server does on its own afterwards (purging
  an object under deletion once its last finalizer is gone) is not part of the
  invocation.
\<close>

definition Reconcile :: "deps \<Rightarrow> env \<Rightarrow> rrset option \<Rightarrow> outcome" where
  "Reconcile d e store =
     (case k8s_Get e store of
        Inl er \<Rightarrow> mk (Return emptyResult (IgnoreNotFound er)) store [K8sGet]
      | Inr rrset \<Rightarrow>
          (let isInFailedStatus = (SyncStatus (Status rrset) = Some FAILED_STATUS);
               lastUpdateTime = (case LastUpdateTime (Status rrset) of
                                   None \<Rightarrow> now_start e
                                 | Some t \<Rightarrow> t);
               tr = [K8sGet, K8sGetZone (Namespace rrset) (spec_ZoneRef (Spec rrset))]
           in case get_zone e of
                Inl er \<Rightarrow> Reconcile_zoneError d e rrset store tr er
              | Inr z \<Rightarrow>
                  if IsZero (DeletionTimestamp rrset) then
                    (if \<not> ContainsFinalizer rrset (FINALIZER_NAME d) then
                       (let rrset' = AddFinalizer rrset (FINALIZER_NAME d);
                            lastUpdateTime = now_finalizer e
                        in case update_add e of
                             Some er \<Rightarrow>
                               mk (Return emptyResult (Some er)) store (tr @ [K8sUpdate rrset'])
                           | None \<Rightarrow>
                               Reconcile_normal d e z rrset' lastUpdateTime isInFailedStatus
                                 (Some rrset') (tr @ [K8sUpdate rrset']))
                     else Reconcile_normal d e z rrset lastUpdateTime isInFailedStatus store tr)
                  else Reconcile_deletion d e z rrset isInFailedStatus store tr))"

subsection \<open>The field indexer of SetupWithManager (lines 225-232)\<close>

definition indexFunc :: "deps \<Rightarrow> rrset \<Rightarrow> string list" where
  "indexFunc d rawObj =
     (let RRsetName =
            (if SyncStatus (Status rawObj) = None
                \<or> SyncStatus (Status rawObj) = Some SUCCEEDED_STATUS
             then getRRsetName d rawObj @ ''/'' @ spec_Type (Spec rawObj)
             else [])
      in [RRsetName])"

subsection \<open>Observations on an outcome\<close>

text \<open>The name of the call an event records.\<close>

fun callName :: "event \<Rightarrow> string" where
  "callName K8sGet = ''Get''"
| "callName (K8sGetZone ns n) = ''GetZone''"
| "callName (K8sUpdate r) = ''Update''"
| "callName (K8sList k) = ''List''"
| "callName (K8sStatusPatch r) = ''Status.Patch''"
| "callName (PdnsGet z n t) = ''Records.Get''"
| "callName (PdnsChange z n t ttl rs c) = ''Records.Change''"
| "callName (PdnsDelete z n t) = ''Records.Delete''"
| "callName (MetricsUpdate n t s on ns) = ''updateRrsetsMetrics''"
| "callName (MetricsRemove on ns) = ''removeRrsetMetrics''"

text \<open>Calls on the external DNS server; those among them that write.\<close>

fun isPdnsCall :: "event \<Rightarrow> bool" where
  "isPdnsCall (PdnsGet z n t) = True"
| "isPdnsCall (PdnsChange z n t ttl rs c) = True"
| "isPdnsCall (PdnsDelete z n t) = True"
| "isPdnsCall ev = False"


text \<open>The apply call; the call that publishes the metrics entry.\<close>

fun isPdnsChange :: "event \<Rightarrow> bool" where
  "isPdnsChange (PdnsChange z n t ttl rs c) = True"
| "isPdnsChange ev = False"

fun isMetricsUpdate :: "event \<Rightarrow> bool" where
  "isMetricsUpdate (MetricsUpdate n t s on ns) = True"
| "isMetricsUpdate ev = False"

text \<open>
  The calls of the finalization logic on the loaded object \<open>r\<close>: the two
  lookups, the external delete, the update that detaches the finalizer, and
  the retraction of the metrics entry.
\<close>

fun finalizationOnly :: "deps \<Rightarrow> rrset \<Rightarrow> event \<Rightarrow> bool" where
  "finalizationOnly d r K8sGet = True"
| "finalizationOnly d r (K8sGetZone ns n) = True"
| "finalizationOnly d r (K8sUpdate r') =
     (r' = RemoveFinalizer r (FINALIZER_NAME d) \<and> \<not> ContainsFinalizer r' (FINALIZER_NAME d))"
| "finalizationOnly d r (PdnsDelete z n t) = True"
| "finalizationOnly d r (MetricsRemove on ns) = True"
| "finalizationOnly d r ev = False"

text \<open>The status the API server holds, and its \<^verbatim>\<open>lastUpdateTime\<close>.\<close>

definition storedStatus :: "rrset option \<Rightarrow> rrset_status option" where
  "storedStatus s = (case s of None \<Rightarrow> None | Some r \<Rightarrow> Some (Status r))"

definition storedLastUpdateTime :: "rrset option \<Rightarrow> time option" where
  "storedLastUpdateTime s = (case s of None \<Rightarrow> None | Some r \<Rightarrow> LastUpdateTime (Status r))"

definition returnsError :: "ret \<Rightarrow> bool" where
  "returnsError r = (case r of Return res None \<Rightarrow> False | Return res (Some er) \<Rightarrow> True | Panic \<Rightarrow> False)"

text \<open>
  The invocation gets past the two lookups: the object is stored and read,
  and the parent zone is found.
\<close>

definition loaded :: "env \<Rightarrow> rrset option \<Rightarrow> rrset \<Rightarrow> zone \<Rightarrow> bool" where
  "loaded e store r z =
     (store = Some r \<and> get_rrset_err e = None \<and> get_zone e = Inr z)"

text \<open>
  The invocation reaches the duplicate check of line 153: the object is loaded,
  not being deleted and not Failed, and it carries the finalizer or the update
  that attaches it succeeds.
\<close>

definition checkReached :: "deps \<Rightarrow> env \<Rightarrow> rrset option \<Rightarrow> rrset \<Rightarrow> zone \<Rightarrow> bool" where
  "checkReached d e store r z =
     (loaded e store r z \<and> IsZero (DeletionTimestamp r)
      \<and> (ContainsFinalizer r (FINALIZER_NAME d) \<or> update_add e = None)
      \<and> SyncStatus (Status r) \<noteq> Some FAILED_STATUS)"

text \<open>The number of claimants the index query of line 153 returns, if it succeeds.\<close>

definition claimants :: "env \<Rightarrow> nat option" where
  "claimants e = (case list_rrsets e of Inl er \<Rightarrow> None | Inr items \<Rightarrow> Some (length items))"

text \<open>The invocation reaches the sync step of line 176.\<close>

definition syncReached :: "deps \<Rightarrow> env \<Rightarrow> rrset option \<Rightarrow> rrset \<Rightarrow> zone \<Rightarrow> bool" where
  "syncReached d e store r z =
     (checkReached d e store r z
      \<and> (case claimants e of None \<Rightarrow> False | Some n \<Rightarrow> n \<le> 1))"

text \<open>
  The state of the invocation at the duplicate check: the trace so far, the
  value of the local \<^verbatim>\<open>lastUpdateTime\<close>, and the stored object.
\<close>

definition traceAtCheck :: "deps \<Rightarrow> rrset \<Rightarrow> event list" where
  "traceAtCheck d r =
     [K8sGet, K8sGetZone (Namespace r) (spec_ZoneRef (Spec r))]
     @ (if ContainsFinalizer r (FINALIZER_NAME d) then []
        else [K8sUpdate (AddFinalizer r (FINALIZER_NAME d))])
     @ [K8sList (getRRsetName d (AddFinalizer r (FINALIZER_NAME d)) @ ''/''
                 @ spec_Type (Spec (AddFinalizer r (FINALIZER_NAME d))))]"

definition timeAtCheck :: "deps \<Rightarrow> env \<Rightarrow> rrset \<Rightarrow> time" where
  "timeAtCheck d e r =
     (if ContainsFinalizer r (FINALIZER_NAME d)
      then (case LastUpdateTime (Status r) of None \<Rightarrow> now_start e | Some t \<Rightarrow> t)
      else now_finalizer e)"

subsection \<open>The external server between two invocations\<close>








subsection \<open>A concrete scenario\<close>

text \<open>
  Instances of the parameters, used only to run the model on concrete inputs:
  every general statement below holds for all parameters.
\<close>

text \<open>
  Modelled from the spec: \<^verbatim>\<open>makeCanonical\<close> is missing from the source file. A
  canonical name is the fully-qualified name in trailing-dot form.
\<close>

definition model_makeCanonical :: "string \<Rightarrow> string" where
  "model_makeCanonical s = (if s \<noteq> [] \<and> last s = CHR ''.'' then s else s @ ''.'')"

text \<open>
  Modelled from the spec: \<^verbatim>\<open>getRRsetName\<close> is missing from the source file. The
  resolved name of record \<^verbatim>\<open>www\<close> in zone \<^verbatim>\<open>example.com\<close> is
  \<^verbatim>\<open>www.example.com.\<close>, in canonical form.
\<close>

definition model_getRRsetName :: "rrset \<Rightarrow> string" where
  "model_getRRsetName r =
     model_makeCanonical (spec_Name (Spec r) @ ''.'' @ spec_ZoneRef (Spec r))"

text \<open>
  Modelled from the spec: \<^verbatim>\<open>rrsetIsIdenticalToExternalRRset\<close> is missing from the
  source file. The diff reports a change if the record type, the TTL, the
  value list or the comment differ.
\<close>

definition model_identical :: "rrset \<Rightarrow> pdns_rrset \<Rightarrow> bool" where
  "model_identical r x =
     (pdns_Type x = Some (spec_Type (Spec r))
      \<and> pdns_TTL x = Some (spec_TTL (Spec r))
      \<and> pdns_Records x = spec_Records (Spec r)
      \<and> map Content (pdns_Comments x)
          = (case spec_Comment (Spec r) of None \<Rightarrow> [] | Some c \<Rightarrow> [Some c]))"

text \<open>
  Modelled from the spec: \<^verbatim>\<open>ctrl.SetControllerReference\<close> belongs to a library.
  The ownership edge from the zone to the record-set is established
  idempotently.
\<close>

definition model_SetControllerReference :: "zone \<Rightarrow> string list \<Rightarrow> err + string list" where
  "model_SetControllerReference z refs =
     Inr (if zone_Name z \<in> set refs then refs else refs @ [zone_Name z])"

text \<open>
  Modelled from the spec: the constant \<^verbatim>\<open>FINALIZER_NAME\<close> is missing from the
  source file; the name chosen here is in the API group of the operator.
\<close>

definition model_deps :: deps where
  "model_deps = \<lparr>FINALIZER_NAME = ''dns.cav.enablers.ob/finalizer'',
     getRRsetName = model_getRRsetName,
     makeCanonical = model_makeCanonical,
     rrsetIsIdenticalToExternalRRset = model_identical,
     SetControllerReference = model_SetControllerReference\<rparr>"

text \<open>
  The record-set of the end-to-end example: \<^verbatim>\<open>www\<close> in \<^verbatim>\<open>example.com\<close>, type A,
  TTL 300, one value; it carries the finalizer and has no status yet.
\<close>

definition www :: rrset where
  "www = \<lparr>Name = ''www'', Namespace = ''default'', DeletionTimestamp = None,
     Finalizers = [''dns.cav.enablers.ob/finalizer''], OwnerReferences = [],
     Spec = \<lparr>spec_Name = ''www'', spec_ZoneRef = ''example.com'', spec_Type = ''A'',
              spec_TTL = 300, spec_Records = [''10.0.0.1''], spec_Comment = None\<rparr>,
     Status = \<lparr>LastUpdateTime = None, DnsEntryName = None, SyncStatus = None,
                SyncErrorDescription = None\<rparr>\<rparr>"

text \<open>The status after a successful sync at time 50.\<close>

definition synced :: rrset_status where
  "synced = \<lparr>LastUpdateTime = Some 50, DnsEntryName = Some ''www.example.com.'',
     SyncStatus = Some ''Succeeded'', SyncErrorDescription = None\<rparr>"

text \<open>The same record-set as the external server holds it.\<close>

definition www_external :: pdns_rrset where
  "www_external = \<lparr>pdns_Name = Some ''www.example.com.'', pdns_Type = Some ''A'',
     pdns_TTL = Some 300, pdns_Records = [''10.0.0.1''], pdns_Comments = []\<rparr>"

text \<open>
  An environment in which every call succeeds: the zone exists, the object is
  the only claimant of its name and the external server has no record yet.
\<close>

definition calm :: env where
  "calm = \<lparr>now_start = 100, now_finalizer = 101, now_deleted = 102, now_changed = 103,
     get_rrset_err = None, get_zone = Inr \<lparr>zone_Name = ''example.com''\<rparr>,
     update_orphan = None, update_add = None, records_delete = None, update_remove = None,
     list_rrsets = Inr [www], patch_duplicate = None, records_get = ([], None),
     records_change = None, update_owner = None, patch_status = None\<rparr>"

definition conflict :: err where
  "conflict = Err Conflict ''the object has been modified''"

definition refused :: err where
  "refused = Err OtherError ''connection refused''"

definition gone :: err where
  "gone = Err NotFound ''zone not found''"

section \<open>Properties\<close>

subsection \<open>Where an invocation stands when it reaches each step\<close>

lemma AddFinalizer_present: "ContainsFinalizer r f \<Longrightarrow> AddFinalizer r f = r"
  by (simp add: ContainsFinalizer_def AddFinalizer_def)

lemma RemoveFinalizer_absent: "\<not> ContainsFinalizer (RemoveFinalizer r f) f"
  by (simp add: ContainsFinalizer_def RemoveFinalizer_def)

lemma AddFinalizer_fields:
  "Spec (AddFinalizer r f) = Spec r" "Status (AddFinalizer r f) = Status r"
  "Name (AddFinalizer r f) = Name r" "Namespace (AddFinalizer r f) = Namespace r"
  "DeletionTimestamp (AddFinalizer r f) = DeletionTimestamp r"
  "OwnerReferences (AddFinalizer r f) = OwnerReferences r"
  by (simp_all add: AddFinalizer_def)

lemma Reconcile_loaded:
  assumes "loaded e store r z"
  shows "Reconcile d e store =
     (if IsZero (DeletionTimestamp r) then
        (if \<not> ContainsFinalizer r (FINALIZER_NAME d) then
           (case update_add e of
              Some er \<Rightarrow>
                mk (Return emptyResult (Some er)) store
                   [K8sGet, K8sGetZone (Namespace r) (spec_ZoneRef (Spec r)),
                    K8sUpdate (AddFinalizer r (FINALIZER_NAME d))]
            | None \<Rightarrow>
                Reconcile_normal d e z (AddFinalizer r (FINALIZER_NAME d)) (now_finalizer e)
                  (SyncStatus (Status r) = Some FAILED_STATUS)
                  (Some (AddFinalizer r (FINALIZER_NAME d)))
                  [K8sGet, K8sGetZone (Namespace r) (spec_ZoneRef (Spec r)),
                   K8sUpdate (AddFinalizer r (FINALIZER_NAME d))])
         else Reconcile_normal d e z r
                (case LastUpdateTime (Status r) of None \<Rightarrow> now_start e | Some t \<Rightarrow> t)
                (SyncStatus (Status r) = Some FAILED_STATUS) store
                [K8sGet, K8sGetZone (Namespace r) (spec_ZoneRef (Spec r))])
      else Reconcile_deletion d e z r (SyncStatus (Status r) = Some FAILED_STATUS) store
             [K8sGet, K8sGetZone (Namespace r) (spec_ZoneRef (Spec r))])"
  using assms
  by (simp add: loaded_def Reconcile_def k8s_Get_def Let_def split: option.splits)

lemma Reconcile_at_check:
  assumes "checkReached d e store r z"
  shows "Reconcile d e store =
     (case list_rrsets e of
        Inl er \<Rightarrow> mk (Return emptyResult (Some er)) (Some (AddFinalizer r (FINALIZER_NAME d)))
                    (traceAtCheck d r)
      | Inr items \<Rightarrow>
          if length items > 1
          then Reconcile_duplicate d e (AddFinalizer r (FINALIZER_NAME d)) (timeAtCheck d e r)
                 (Some (AddFinalizer r (FINALIZER_NAME d))) (traceAtCheck d r)
          else Reconcile_sync d e z (AddFinalizer r (FINALIZER_NAME d)) (timeAtCheck d e r)
                 (Some (AddFinalizer r (FINALIZER_NAME d))) (traceAtCheck d r))"
proof -
  from assms have l: "loaded e store r z" and s: "store = Some r"
    by (simp_all add: checkReached_def loaded_def)
  show ?thesis
  proof (cases "ContainsFinalizer r (FINALIZER_NAME d)")
    case True
    with assms show ?thesis
      unfolding Reconcile_loaded [OF l]
      by (simp add: checkReached_def Reconcile_normal_def s traceAtCheck_def timeAtCheck_def
            AddFinalizer_present Let_def split: sum.splits)
  next
    case False
    with assms show ?thesis
      unfolding Reconcile_loaded [OF l]
      by (simp add: checkReached_def Reconcile_normal_def AddFinalizer_fields traceAtCheck_def
            timeAtCheck_def Let_def split: sum.splits)
  qed
qed

lemma Reconcile_at_sync:
  assumes "syncReached d e store r z"
  shows "Reconcile d e store =
     Reconcile_sync d e z (AddFinalizer r (FINALIZER_NAME d)) (timeAtCheck d e r)
       (Some (AddFinalizer r (FINALIZER_NAME d))) (traceAtCheck d r)"
proof -
  from assms have c: "checkReached d e store r z" by (simp add: syncReached_def)
  from assms show ?thesis
    unfolding Reconcile_at_check [OF c]
    by (auto simp add: syncReached_def claimants_def split: sum.splits)
qed

lemma createOrUpdate_trace:
  "\<exists>rest. fst (createOrUpdateExternalResources d e z r)
     = PdnsGet (zone_Name z) (getRRsetName d r) (spec_Type (Spec r)) # rest"
  by (simp add: createOrUpdateExternalResources_def applyChange_def Let_def
        split: prod.splits option.splits)

lemma Reconcile_status_trace:
  "\<exists>rest. out_trace (Reconcile_status d e z r t c er s tr) = tr @ rest"
  by (simp add: Reconcile_status_def ownObject_def mk_def Let_def
        split: prod.splits option.splits sum.splits)

lemma Reconcile_sync_trace:
  "\<exists>rest. out_trace (Reconcile_sync d e z r t s tr)
     = tr @ PdnsGet (zone_Name z) (getRRsetName d r) (spec_Type (Spec r)) # rest"
proof -
  obtain t1 res where c: "createOrUpdateExternalResources d e z r = (t1, res)"
    by (cases "createOrUpdateExternalResources d e z r")
  with createOrUpdate_trace [of d e z r] obtain rest1
    where t1: "t1 = PdnsGet (zone_Name z) (getRRsetName d r) (spec_Type (Spec r)) # rest1"
    by auto
  show ?thesis
  proof (cases res)
    case None
    with c t1 show ?thesis by (simp add: Reconcile_sync_def mk_def)
  next
    case (Some p)
    obtain ch er where p: "p = (ch, er)" by (cases p)
    from Reconcile_status_trace [of d e z r t ch er s "tr @ t1"]
    obtain rest2 where "out_trace (Reconcile_status d e z r t ch er s (tr @ t1)) = (tr @ t1) @ rest2"
      by blast
    with c t1 Some p show ?thesis by (simp add: Reconcile_sync_def)
  qed
qed

lemma Reconcile_normal_trace:
  assumes "\<not> f"
  shows "\<exists>rest. out_trace (Reconcile_normal d e z r t f s tr)
     = tr @ K8sList (getRRsetName d r @ ''/'' @ spec_Type (Spec r)) # rest"
proof (cases "list_rrsets e")
  case (Inl er)
  with assms show ?thesis by (simp add: Reconcile_normal_def mk_def Let_def)
next
  case (Inr items)
  show ?thesis
  proof (cases "length items > 1")
    case True
    with assms Inr show ?thesis
      by (simp add: Reconcile_normal_def Reconcile_duplicate_def mk_def Let_def
            split: option.splits)
  next
    case False
    from Reconcile_sync_trace [of d e z r t s "tr @ [K8sList (getRRsetName d r @ ''/'' @ spec_Type (Spec r))]"]
    obtain rest where "out_trace (Reconcile_sync d e z r t s
        (tr @ [K8sList (getRRsetName d r @ ''/'' @ spec_Type (Spec r))]))
      = (tr @ [K8sList (getRRsetName d r @ ''/'' @ spec_Type (Spec r))])
        @ PdnsGet (zone_Name z) (getRRsetName d r) (spec_Type (Spec r)) # rest" by blast
    with assms Inr False show ?thesis
      by (simp add: Reconcile_normal_def Let_def)
  qed
qed

lemma traceAtCheck_no_pdns: "list_all (\<lambda>ev. \<not> isPdnsCall ev) (traceAtCheck d r)"
  by (simp add: traceAtCheck_def)


subsection \<open>When the sync step fails\<close>

lemma fetch_failure:
  assumes "snd (records_get e) = Some er" and "\<not> IsNotFound er"
  shows "createOrUpdateExternalResources d e z r
     = ([PdnsGet (zone_Name z) (getRRsetName d r) (spec_Type (Spec r))], Some (False, Some er))"
  using assms
  by (cases "records_get e") (simp add: createOrUpdateExternalResources_def Let_def)

lemma apply_issued:
  assumes "list_ex isPdnsChange (fst (createOrUpdateExternalResources d e z r))"
  shows "snd (createOrUpdateExternalResources d e z r)
     = Some (case records_change e of None \<Rightarrow> (True, None) | Some er \<Rightarrow> (False, Some er))"
  using assms
  by (auto simp add: createOrUpdateExternalResources_def applyChange_def Let_def
        split: prod.splits option.splits if_splits)

lemma Reconcile_status_change:
  "list_ex isPdnsChange (out_trace (Reconcile_status d e z r t c er s tr))
     = list_ex isPdnsChange tr"
  by (auto simp add: Reconcile_status_def ownObject_def mk_def Let_def
        split: prod.splits option.splits sum.splits)

lemma traceAtCheck_no_change: "\<not> list_ex isPdnsChange (traceAtCheck d r)"
  by (simp add: traceAtCheck_def)

lemma Reconcile_sync_change:
  "list_ex isPdnsChange (out_trace (Reconcile_sync d e z r t s tr))
     = (list_ex isPdnsChange tr \<or> list_ex isPdnsChange (fst (createOrUpdateExternalResources d e z r)))"
  by (cases "createOrUpdateExternalResources d e z r")
     (auto simp add: Reconcile_sync_def Reconcile_status_change mk_def split: option.splits)

lemma sync_call_fails:
  assumes "syncReached d e store r z"
    and "(snd (records_get e) = Some er \<and> \<not> IsNotFound er)
         \<or> (list_ex isPdnsChange (out_trace (Reconcile d e store)) \<and> records_change e = Some er)"
  shows "\<exists>t1. createOrUpdateExternalResources d e z (AddFinalizer r (FINALIZER_NAME d))
           = (t1, Some (False, Some er))"
  using assms(2)
proof
  assume "snd (records_get e) = Some er \<and> \<not> IsNotFound er"
  then show ?thesis using fetch_failure [of e er d z] by blast
next
  assume a: "list_ex isPdnsChange (out_trace (Reconcile d e store)) \<and> records_change e = Some er"
  then have "list_ex isPdnsChange
      (fst (createOrUpdateExternalResources d e z (AddFinalizer r (FINALIZER_NAME d))))"
    by (simp add: Reconcile_at_sync [OF assms(1)] Reconcile_sync_change traceAtCheck_no_change)
  from apply_issued [OF this] a
  have "snd (createOrUpdateExternalResources d e z (AddFinalizer r (FINALIZER_NAME d)))
      = Some (False, Some er)" by simp
  then show ?thesis
    by (cases "createOrUpdateExternalResources d e z (AddFinalizer r (FINALIZER_NAME d))") simp
qed

lemma traceAtCheck_no_metrics: "list_all (\<lambda>ev. \<not> isMetricsUpdate ev) (traceAtCheck d r)"
  by (simp add: traceAtCheck_def)

subsection \<open>The server and the second of two invocations\<close>











subsection \<open>Running the model\<close>

text \<open>The equations that run the model on a concrete input.\<close>

lemmas run_defs = Reconcile_def k8s_Get_def Reconcile_zoneError_def Reconcile_deletion_def
  Reconcile_normal_def Reconcile_duplicate_def Reconcile_sync_def Reconcile_status_def
  createOrUpdateExternalResources_def applyChange_def ownObject_def deleteExternalResources_def
  mk_def Let_def ContainsFinalizer_def AddFinalizer_def RemoveFinalizer_def
  FAILED_STATUS_def SUCCEEDED_STATUS_def emptyResult_def Second_def zero_RRset_def

lemmas scenario_defs = www_def calm_def synced_def www_external_def model_deps_def
  model_getRRsetName_def model_makeCanonical_def model_identical_def
  model_SetControllerReference_def conflict_def refused_def gone_def

subsection \<open>A failing sync step\<close>

text \<open>
  Claim C1 says that when the fetch or the apply call fails, the status is set
  to Failed with the message of the error and the invocation returns an error
  to the scheduler. The source records the error in the status (lines 177-181)
  and goes on; after the ownership update and the status patch it returns
  \<^verbatim>\<open>ctrl.Result{}, nil\<close> (line 219). With an apply call that is refused and every
  other call succeeding, the invocation returns no error and requests no
  requeue.
\<close>

theorem sync_failure_returns_counterexample:
  "records_change (calm\<lparr>records_change := Some refused\<rparr>) = Some refused
   \<and> \<not> IsNotFound refused
   \<and> map callName (out_trace (Reconcile model_deps (calm\<lparr>records_change := Some refused\<rparr>)
        (Some www)))
      = [''Get'', ''GetZone'', ''List'', ''Records.Get'', ''Records.Change'', ''Update'',
         ''Status.Patch'', ''updateRrsetsMetrics'']
   \<and> out_ret (Reconcile model_deps (calm\<lparr>records_change := Some refused\<rparr>) (Some www))
      = Return \<lparr>Requeue = False, RequeueAfter = 0\<rparr> None
   \<and> \<not> returnsError (out_ret (Reconcile model_deps (calm\<lparr>records_change := Some refused\<rparr>)
        (Some www)))"
  by (simp add: run_defs scenario_defs returnsError_def)

text \<open>
  Claim C1, amended. For every reconcile invocation that reaches the sync step
  and in which the fetch is answered with an error other than NotFound, or the
  apply call is issued and answered with an error, provided the ownership
  update and the status patch succeed: the status is patched and stored as
  Failed with the message of that error as the error description, the metrics
  entry is published with outcome Failed, and the invocation returns success
  with an empty result: it returns no error and requests no requeue.
\<close>

theorem sync_failure_marks_failed:
  assumes "syncReached d e store r z"
    and "(snd (records_get e) = Some er \<and> \<not> IsNotFound er)
         \<or> (list_ex isPdnsChange (out_trace (Reconcile d e store)) \<and> records_change e = Some er)"
    and "SetControllerReference d z (OwnerReferences r) = Inr refs"
    and "update_owner e = None" and "patch_status e = None"
  shows "out_ret (Reconcile d e store) = Return emptyResult None
       \<and> \<not> returnsError (out_ret (Reconcile d e store))
       \<and> (\<exists>p. out_store (Reconcile d e store) = Some p
              \<and> K8sStatusPatch p \<in> set (out_trace (Reconcile d e store))
              \<and> SyncStatus (Status p) = Some FAILED_STATUS
              \<and> SyncErrorDescription (Status p) = Some (Error er)
              \<and> last (out_trace (Reconcile d e store))
                  = MetricsUpdate (getRRsetName d p) (spec_Type (Spec r)) FAILED_STATUS
                      (Name r) (Namespace r))"
proof -
  from sync_call_fails [OF assms(1,2)]
  obtain t1 where c: "createOrUpdateExternalResources d e z (AddFinalizer r (FINALIZER_NAME d))
      = (t1, Some (False, Some er))" by blast
  show ?thesis
    using assms(3-5) c
    by (simp add: Reconcile_at_sync [OF assms(1)] Reconcile_sync_def Reconcile_status_def
          ownObject_def mk_def Let_def AddFinalizer_fields returnsError_def emptyResult_def)
qed

theorem sync_failure_marks_failed_witness:
  "syncReached model_deps (calm\<lparr>records_change := Some refused\<rparr>) (Some www) www
     \<lparr>zone_Name = ''example.com''\<rparr>
   \<and> list_ex isPdnsChange (out_trace (Reconcile model_deps
        (calm\<lparr>records_change := Some refused\<rparr>) (Some www)))
   \<and> records_change (calm\<lparr>records_change := Some refused\<rparr>) = Some refused
   \<and> storedStatus (out_store (Reconcile model_deps (calm\<lparr>records_change := Some refused\<rparr>)
        (Some www)))
      = Some \<lparr>LastUpdateTime = Some 100, DnsEntryName = Some ''www.example.com.'',
               SyncStatus = Some ''Failed'', SyncErrorDescription = Some ''connection refused''\<rparr>
   \<and> out_ret (Reconcile model_deps (calm\<lparr>records_change := Some refused\<rparr>) (Some www))
      = Return emptyResult None
   \<and> syncReached model_deps (calm\<lparr>records_get := ([], Some refused)\<rparr>) (Some www) www
        \<lparr>zone_Name = ''example.com''\<rparr>
   \<and> \<not> IsNotFound refused
   \<and> storedStatus (out_store (Reconcile model_deps (calm\<lparr>records_get := ([], Some refused)\<rparr>)
        (Some www)))
      = Some \<lparr>LastUpdateTime = Some 100, DnsEntryName = Some ''www.example.com.'',
               SyncStatus = Some ''Failed'', SyncErrorDescription = Some ''connection refused''\<rparr>
   \<and> out_ret (Reconcile model_deps (calm\<lparr>records_get := ([], Some refused)\<rparr>) (Some www))
      = Return emptyResult None"
proof -
  let ?e = "calm\<lparr>records_change := Some refused\<rparr>"
  let ?f = "calm\<lparr>records_get := ([], Some refused)\<rparr>"
  let ?z = "\<lparr>zone_Name = ''example.com''\<rparr>"
  have s: "syncReached model_deps ?e (Some www) www ?z"
    by (simp add: syncReached_def checkReached_def loaded_def claimants_def calm_def www_def
          ContainsFinalizer_def model_deps_def FAILED_STATUS_def)
  have c: "list_ex isPdnsChange (out_trace (Reconcile model_deps ?e (Some www)))"
    by (simp add: run_defs scenario_defs)
  have a: "records_change ?e = Some refused" by simp
  have o: "SetControllerReference model_deps ?z (OwnerReferences www) = Inr [''example.com'']"
    by (simp add: scenario_defs)
  have u: "update_owner ?e = None" "patch_status ?e = None" by (simp_all add: calm_def)
  have st: "storedStatus (out_store (Reconcile model_deps ?e (Some www)))
      = Some \<lparr>LastUpdateTime = Some 100, DnsEntryName = Some ''www.example.com.'',
               SyncStatus = Some ''Failed'', SyncErrorDescription = Some ''connection refused''\<rparr>"
    by (simp add: run_defs scenario_defs storedStatus_def)
  have s': "syncReached model_deps ?f (Some www) www ?z"
    by (simp add: syncReached_def checkReached_def loaded_def claimants_def calm_def www_def
          ContainsFinalizer_def model_deps_def FAILED_STATUS_def)
  have n: "\<not> IsNotFound refused" by (simp add: refused_def)
  have g: "snd (records_get ?f) = Some refused" by simp
  have u': "update_owner ?f = None" "patch_status ?f = None" by (simp_all add: calm_def)
  have st': "storedStatus (out_store (Reconcile model_deps ?f (Some www)))
      = Some \<lparr>LastUpdateTime = Some 100, DnsEntryName = Some ''www.example.com.'',
               SyncStatus = Some ''Failed'', SyncErrorDescription = Some ''connection refused''\<rparr>"
    by (simp add: run_defs scenario_defs storedStatus_def)
  have r1: "out_ret (Reconcile model_deps ?e (Some www)) = Return emptyResult None"
    using sync_failure_marks_failed [OF s _ o u, of refused] c a by blast
  have r2: "out_ret (Reconcile model_deps ?f (Some www)) = Return emptyResult None"
    using sync_failure_marks_failed [OF s' _ o u', of refused] g n by blast
  from s c a st r1 s' n st' r2 show ?thesis by simp
qed

subsection \<open>Finalization\<close>

text \<open>
  Claim C2 says that every reconcile of an object whose deletion is requested
  and whose finalizer is present issues the external delete before it removes
  the finalizer, unless the prior status is Failed. When the parent zone is
  missing the source takes the branch of lines 78-92 instead: for the object of
  the end-to-end example, synced, with a deletion timestamp and its finalizer,
  the update that stores it without the finalizer is issued and succeeds, and
  no \<^verbatim>\<open>Records.Delete\<close> call is made.
\<close>

theorem finalization_order_counterexample:
  "\<not> IsZero (DeletionTimestamp (www\<lparr>DeletionTimestamp := Some 60, Status := synced\<rparr>))
   \<and> ContainsFinalizer (www\<lparr>DeletionTimestamp := Some 60, Status := synced\<rparr>)
        (FINALIZER_NAME model_deps)
   \<and> SyncStatus (Status (www\<lparr>DeletionTimestamp := Some 60, Status := synced\<rparr>))
        \<noteq> Some FAILED_STATUS
   \<and> Reconcile model_deps (calm\<lparr>get_zone := Inl gone\<rparr>)
        (Some (www\<lparr>DeletionTimestamp := Some 60, Status := synced\<rparr>))
      = \<lparr>out_ret = Return \<lparr>Requeue = False, RequeueAfter = 2000000000\<rparr> None,
         out_store = Some (www\<lparr>DeletionTimestamp := Some 60, Finalizers := [], Status := synced\<rparr>),
         out_trace = [K8sGet, K8sGetZone ''default'' ''example.com'',
                      K8sUpdate (www\<lparr>DeletionTimestamp := Some 60, Finalizers := [],
                                   Status := synced\<rparr>),
                      MetricsRemove ''www'' ''default'']\<rparr>"
  by (simp add: run_defs scenario_defs)

text \<open>
  Claim C2, amended. For every reconcile of an object whose deletion is
  requested and whose finalizer is present, and whose parent zone is found: if
  the prior status is not Failed the external delete is the third call of the
  invocation; when it succeeds the next call is the update that stores the
  object without the finalizer, and when it fails the invocation returns the
  error of the delete with no further call, so that the finalizer stays; if
  the prior status is Failed no call is made on the external server and the
  third call is the update that stores the object without the finalizer.
\<close>

theorem finalization_order:
  assumes "loaded e store r z" and "\<not> IsZero (DeletionTimestamp r)"
    and "ContainsFinalizer r (FINALIZER_NAME d)"
  shows "if SyncStatus (Status r) \<noteq> Some FAILED_STATUS then
           (case records_delete e of
              None \<Rightarrow>
                take 4 (out_trace (Reconcile d e store))
                  = [K8sGet, K8sGetZone (Namespace r) (spec_ZoneRef (Spec r)),
                     PdnsDelete (zone_Name z) (getRRsetName d r) (spec_Type (Spec r)),
                     K8sUpdate (RemoveFinalizer r (FINALIZER_NAME d))]
            | Some er \<Rightarrow>
                Reconcile d e store
                  = \<lparr>out_ret = Return emptyResult (Some er), out_store = store,
                     out_trace = [K8sGet, K8sGetZone (Namespace r) (spec_ZoneRef (Spec r)),
                        PdnsDelete (zone_Name z) (getRRsetName d r) (spec_Type (Spec r))]\<rparr>)
         else
           take 3 (out_trace (Reconcile d e store))
             = [K8sGet, K8sGetZone (Namespace r) (spec_ZoneRef (Spec r)),
                K8sUpdate (RemoveFinalizer r (FINALIZER_NAME d))]
           \<and> list_all (\<lambda>ev. \<not> isPdnsCall ev) (out_trace (Reconcile d e store))"
  using assms
  by (simp add: Reconcile_loaded [OF assms(1)] Reconcile_deletion_def
        deleteExternalResources_def mk_def Let_def split: option.splits)

theorem finalization_order_witness:
  "loaded (calm\<lparr>records_delete := Some refused\<rparr>)
     (Some (www\<lparr>DeletionTimestamp := Some 60, Status := synced\<rparr>))
     (www\<lparr>DeletionTimestamp := Some 60, Status := synced\<rparr>) \<lparr>zone_Name = ''example.com''\<rparr>
   \<and> \<not> IsZero (DeletionTimestamp (www\<lparr>DeletionTimestamp := Some 60, Status := synced\<rparr>))
   \<and> ContainsFinalizer (www\<lparr>DeletionTimestamp := Some 60, Status := synced\<rparr>)
        (FINALIZER_NAME model_deps)
   \<and> Reconcile model_deps (calm\<lparr>records_delete := Some refused\<rparr>)
        (Some (www\<lparr>DeletionTimestamp := Some 60, Status := synced\<rparr>))
      = \<lparr>out_ret = Return emptyResult (Some refused),
         out_store = Some (www\<lparr>DeletionTimestamp := Some 60, Status := synced\<rparr>),
         out_trace = [K8sGet, K8sGetZone ''default'' ''example.com'',
                      PdnsDelete ''example.com'' ''www.example.com.'' ''A'']\<rparr>"
proof -
  let ?r = "www\<lparr>DeletionTimestamp := Some 60, Status := synced\<rparr>"
  let ?e = "calm\<lparr>records_delete := Some refused\<rparr>"
  have l: "loaded ?e (Some ?r) ?r \<lparr>zone_Name = ''example.com''\<rparr>"
    by (simp add: loaded_def calm_def)
  have z: "\<not> IsZero (DeletionTimestamp ?r)" by simp
  have c: "ContainsFinalizer ?r (FINALIZER_NAME model_deps)"
    by (simp add: ContainsFinalizer_def www_def model_deps_def)
  have f: "SyncStatus (Status ?r) \<noteq> Some FAILED_STATUS"
    by (simp add: synced_def FAILED_STATUS_def)
  have v: "Namespace ?r = ''default''" "spec_ZoneRef (Spec ?r) = ''example.com''"
    "spec_Type (Spec ?r) = ''A''" "getRRsetName model_deps ?r = ''www.example.com.''"
    by (simp_all add: www_def model_deps_def model_getRRsetName_def model_makeCanonical_def)
  from finalization_order [OF l z c] f v l z c show ?thesis by simp
qed

subsection \<open>The duplicate check\<close>

text \<open>
  Claim C3 says that whenever the index query returns more than one claimant
  the status is patched to Failed, the metrics entry is published and the
  invocation terminates successfully without requesting a retry. When the
  status patch itself fails, here with a conflict, the source returns the
  error of the patch (line 166): the invocation does not terminate
  successfully, the stored status is not Failed and no metrics entry is
  published.
\<close>

theorem duplicate_patch_fails_counterexample:
  "claimants (calm\<lparr>list_rrsets := Inr [www, www\<lparr>Name := ''www2''\<rparr>],
                    patch_duplicate := Some conflict\<rparr>) = Some 2
   \<and> out_ret (Reconcile model_deps
        (calm\<lparr>list_rrsets := Inr [www, www\<lparr>Name := ''www2''\<rparr>],
               patch_duplicate := Some conflict\<rparr>) (Some www))
      = Return \<lparr>Requeue = False, RequeueAfter = 0\<rparr> (Some conflict)
   \<and> returnsError (out_ret (Reconcile model_deps
        (calm\<lparr>list_rrsets := Inr [www, www\<lparr>Name := ''www2''\<rparr>],
               patch_duplicate := Some conflict\<rparr>) (Some www)))
   \<and> out_store (Reconcile model_deps
        (calm\<lparr>list_rrsets := Inr [www, www\<lparr>Name := ''www2''\<rparr>],
               patch_duplicate := Some conflict\<rparr>) (Some www)) = Some www
   \<and> map callName (out_trace (Reconcile model_deps
        (calm\<lparr>list_rrsets := Inr [www, www\<lparr>Name := ''www2''\<rparr>],
               patch_duplicate := Some conflict\<rparr>) (Some www)))
      = [''Get'', ''GetZone'', ''List'', ''Status.Patch'']"
  by (simp add: run_defs scenario_defs claimants_def returnsError_def)

text \<open>
  Claim C3, amended. For every reconcile that reaches the duplicate check and
  in which the index query returns more than one claimant, the invocation
  issues a status patch that sets the status to Failed with the diagnostic
  \<^verbatim>\<open>Already existing RRset with the same FQDN\<close>, and makes no call on the external
  server. If the patch succeeds the patched object is stored, the call after
  the patch publishes the metrics entry with outcome Failed and is the last
  one, and the invocation returns success without a requeue request. If the
  patch fails the patch is the last call, the invocation returns the error of
  the patch, the stored status is the prior one, and no metrics entry is
  published.
\<close>

theorem duplicate_marks_failed:
  assumes "checkReached d e store r z" and "list_rrsets e = Inr items" and "length items > 1"
  shows "\<exists>p. SyncStatus (Status p) = Some FAILED_STATUS
           \<and> SyncErrorDescription (Status p) = Some ''Already existing RRset with the same FQDN''
           \<and> K8sStatusPatch p \<in> set (out_trace (Reconcile d e store))
           \<and> list_all (\<lambda>ev. \<not> isPdnsCall ev) (out_trace (Reconcile d e store))
           \<and> (case patch_duplicate e of
                 None \<Rightarrow>
                   Reconcile d e store
                     = \<lparr>out_ret = Return emptyResult None,
                        out_store = Some p,
                        out_trace = traceAtCheck d r
                          @ [K8sStatusPatch p,
                             MetricsUpdate (getRRsetName d p) (spec_Type (Spec r)) FAILED_STATUS
                               (Name r) (Namespace r)]\<rparr>
               | Some er \<Rightarrow>
                   Reconcile d e store
                     = \<lparr>out_ret = Return emptyResult (Some er),
                        out_store = Some (AddFinalizer r (FINALIZER_NAME d)),
                        out_trace = traceAtCheck d r @ [K8sStatusPatch p]\<rparr>
                   \<and> storedStatus (out_store (Reconcile d e store)) = Some (Status r)
                   \<and> list_all (\<lambda>ev. \<not> isMetricsUpdate ev) (out_trace (Reconcile d e store)))"
  using assms traceAtCheck_no_pdns [of d r] traceAtCheck_no_metrics [of d r]
  by (simp add: Reconcile_at_check [OF assms(1)] Reconcile_duplicate_def mk_def Let_def
        AddFinalizer_fields storedStatus_def split: option.splits)

theorem duplicate_marks_failed_witness:
  "checkReached model_deps (calm\<lparr>list_rrsets := Inr [www, www\<lparr>Name := ''www2''\<rparr>]\<rparr>) (Some www) www
     \<lparr>zone_Name = ''example.com''\<rparr>
   \<and> map callName (out_trace (Reconcile model_deps
        (calm\<lparr>list_rrsets := Inr [www, www\<lparr>Name := ''www2''\<rparr>]\<rparr>) (Some www)))
      = [''Get'', ''GetZone'', ''List'', ''Status.Patch'', ''updateRrsetsMetrics'']
   \<and> out_ret (Reconcile model_deps
        (calm\<lparr>list_rrsets := Inr [www, www\<lparr>Name := ''www2''\<rparr>]\<rparr>) (Some www))
      = Return emptyResult None
   \<and> storedStatus (out_store (Reconcile model_deps
        (calm\<lparr>list_rrsets := Inr [www, www\<lparr>Name := ''www2''\<rparr>]\<rparr>) (Some www)))
      = Some \<lparr>LastUpdateTime = Some 100, DnsEntryName = Some ''www.example.com.'',
               SyncStatus = Some ''Failed'',
               SyncErrorDescription = Some ''Already existing RRset with the same FQDN''\<rparr>
   \<and> checkReached model_deps
        (calm\<lparr>list_rrsets := Inr [www, www\<lparr>Name := ''www2''\<rparr>], patch_duplicate := Some refused\<rparr>)
        (Some www) www \<lparr>zone_Name = ''example.com''\<rparr>
   \<and> out_ret (Reconcile model_deps
        (calm\<lparr>list_rrsets := Inr [www, www\<lparr>Name := ''www2''\<rparr>], patch_duplicate := Some refused\<rparr>)
        (Some www))
      = Return emptyResult (Some refused)
   \<and> list_all (\<lambda>ev. \<not> isMetricsUpdate ev) (out_trace (Reconcile model_deps
        (calm\<lparr>list_rrsets := Inr [www, www\<lparr>Name := ''www2''\<rparr>], patch_duplicate := Some refused\<rparr>)
        (Some www)))"
proof -
  let ?e = "calm\<lparr>list_rrsets := Inr [www, www\<lparr>Name := ''www2''\<rparr>]\<rparr>"
  let ?f = "calm\<lparr>list_rrsets := Inr [www, www\<lparr>Name := ''www2''\<rparr>], patch_duplicate := Some refused\<rparr>"
  have c: "checkReached model_deps ?e (Some www) www \<lparr>zone_Name = ''example.com''\<rparr>"
    by (simp add: checkReached_def loaded_def calm_def www_def ContainsFinalizer_def
          model_deps_def FAILED_STATUS_def)
  have c': "checkReached model_deps ?f (Some www) www \<lparr>zone_Name = ''example.com''\<rparr>"
    by (simp add: checkReached_def loaded_def calm_def www_def ContainsFinalizer_def
          model_deps_def FAILED_STATUS_def)
  have l: "list_rrsets ?e = Inr [www, www\<lparr>Name := ''www2''\<rparr>]"
    "list_rrsets ?f = Inr [www, www\<lparr>Name := ''www2''\<rparr>]" by simp_all
  have n: "length [www, www\<lparr>Name := ''www2''\<rparr>] > 1" by simp
  have p: "patch_duplicate ?e = None" "patch_duplicate ?f = Some refused"
    by (simp_all add: calm_def)
  have t: "map callName (out_trace (Reconcile model_deps ?e (Some www)))
      = [''Get'', ''GetZone'', ''List'', ''Status.Patch'', ''updateRrsetsMetrics'']"
    by (simp add: run_defs scenario_defs)
  have s: "storedStatus (out_store (Reconcile model_deps ?e (Some www)))
      = Some \<lparr>LastUpdateTime = Some 100, DnsEntryName = Some ''www.example.com.'',
               SyncStatus = Some ''Failed'',
               SyncErrorDescription = Some ''Already existing RRset with the same FQDN''\<rparr>"
    by (simp add: run_defs scenario_defs storedStatus_def)
  have ok: "out_ret (Reconcile model_deps ?e (Some www)) = Return emptyResult None"
    using duplicate_marks_failed [OF c l(1) n] p(1) by auto
  have ko: "out_ret (Reconcile model_deps ?f (Some www)) = Return emptyResult (Some refused)
      \<and> list_all (\<lambda>ev. \<not> isMetricsUpdate ev) (out_trace (Reconcile model_deps ?f (Some www)))"
    using duplicate_marks_failed [OF c' l(2) n] p(2) by auto
  from c t ok s c' ko show ?thesis by simp
qed

subsection \<open>Two invocations in a row\<close>




subsection \<open>Attaching the finalizer\<close>

text \<open>
  Claim C5 says that an invocation on an object that is not being deleted and
  lacks the finalizer returns once the finalizer is attached and stored. The
  source has no return after the update of line 107 succeeds: on the object of
  the end-to-end example without its finalizer, with every call succeeding, the
  same invocation goes on to the duplicate check (List), the sync step
  (Records.Get, Records.Change), the ownership update and the status patch.
\<close>

theorem marker_attach_returns_counterexample:
  "IsZero (DeletionTimestamp (www\<lparr>Finalizers := []\<rparr>))
   \<and> \<not> ContainsFinalizer (www\<lparr>Finalizers := []\<rparr>) (FINALIZER_NAME model_deps)
   \<and> map callName (out_trace (Reconcile model_deps calm (Some (www\<lparr>Finalizers := []\<rparr>))))
       = [''Get'', ''GetZone'', ''Update'', ''List'', ''Records.Get'', ''Records.Change'',
          ''Update'', ''Status.Patch'', ''updateRrsetsMetrics'']"
  by (simp add: Reconcile_def k8s_Get_def Reconcile_normal_def Reconcile_sync_def
        Reconcile_status_def createOrUpdateExternalResources_def applyChange_def ownObject_def
        mk_def Let_def www_def calm_def model_deps_def ContainsFinalizer_def AddFinalizer_def
        FAILED_STATUS_def model_SetControllerReference_def zero_RRset_def)

text \<open>
  Claim C5, amended. For every reconcile of an object that is found together
  with its parent zone, is not being deleted and does not carry the finalizer:
  the third call of the invocation is the update that stores the object with
  the finalizer attached; if that update fails the invocation returns its
  error, having issued nothing else and stored nothing; if it succeeds the
  invocation does not return but continues: unless the status is Failed its
  next call is the index query of the duplicate check, and when that reports
  at most one claimant the call after it is the fetch of the sync step.
\<close>

theorem marker_attach_then_continue:
  assumes "loaded e store r z" and "IsZero (DeletionTimestamp r)"
    and "\<not> ContainsFinalizer r (FINALIZER_NAME d)"
  shows "take 3 (out_trace (Reconcile d e store))
           = [K8sGet, K8sGetZone (Namespace r) (spec_ZoneRef (Spec r)),
              K8sUpdate (AddFinalizer r (FINALIZER_NAME d))]
       \<and> ContainsFinalizer (AddFinalizer r (FINALIZER_NAME d)) (FINALIZER_NAME d)
       \<and> (\<forall>er. update_add e = Some er \<longrightarrow>
             out_ret (Reconcile d e store) = Return emptyResult (Some er)
             \<and> out_store (Reconcile d e store) = store
             \<and> length (out_trace (Reconcile d e store)) = 3)
       \<and> (update_add e = None \<and> SyncStatus (Status r) \<noteq> Some FAILED_STATUS \<longrightarrow>
             out_trace (Reconcile d e store) ! 3
               = K8sList (getRRsetName d (AddFinalizer r (FINALIZER_NAME d)) @ ''/''
                          @ spec_Type (Spec r)))
       \<and> (update_add e = None \<and> syncReached d e store r z \<longrightarrow>
             out_trace (Reconcile d e store) ! 4
               = PdnsGet (zone_Name z) (getRRsetName d (AddFinalizer r (FINALIZER_NAME d)))
                   (spec_Type (Spec r)))"
proof -
  let ?r' = "AddFinalizer r (FINALIZER_NAME d)"
  let ?tr = "[K8sGet, K8sGetZone (Namespace r) (spec_ZoneRef (Spec r)), K8sUpdate ?r']"
  let ?f = "SyncStatus (Status r) = Some FAILED_STATUS"
  have R: "Reconcile d e store =
      (case update_add e of
         Some er \<Rightarrow> mk (Return emptyResult (Some er)) store ?tr
       | None \<Rightarrow> Reconcile_normal d e z ?r' (now_finalizer e) ?f (Some ?r') ?tr)"
    using assms by (simp add: Reconcile_loaded [OF assms(1)])
  have a: "ContainsFinalizer ?r' (FINALIZER_NAME d)"
    by (simp add: ContainsFinalizer_def AddFinalizer_def)
  have b: "\<forall>er. update_add e = Some er \<longrightarrow>
             out_ret (Reconcile d e store) = Return emptyResult (Some er)
             \<and> out_store (Reconcile d e store) = store
             \<and> length (out_trace (Reconcile d e store)) = 3"
    by (simp add: R mk_def)
  have pre: "take 3 (out_trace (Reconcile d e store)) = ?tr"
  proof (cases "update_add e")
    case (Some er)
    then show ?thesis by (simp add: R mk_def)
  next
    case None
    show ?thesis
    proof (cases ?f)
      case True
      with None show ?thesis by (simp add: R Reconcile_normal_def mk_def)
    next
      case False
      from Reconcile_normal_trace [OF False, of d e z ?r' "now_finalizer e" "Some ?r'" ?tr]
      obtain rest where "out_trace (Reconcile_normal d e z ?r' (now_finalizer e) ?f (Some ?r') ?tr)
          = ?tr @ K8sList (getRRsetName d ?r' @ ''/'' @ spec_Type (Spec ?r')) # rest" by blast
      with None show ?thesis by (simp add: R)
    qed
  qed
  have c: "update_add e = None \<and> \<not> ?f \<longrightarrow>
             out_trace (Reconcile d e store) ! 3
               = K8sList (getRRsetName d ?r' @ ''/'' @ spec_Type (Spec r))"
  proof (intro impI, elim conjE)
    assume u: "update_add e = None" and nf: "\<not> ?f"
    from Reconcile_normal_trace [OF nf, of d e z ?r' "now_finalizer e" "Some ?r'" ?tr]
    obtain rest where "out_trace (Reconcile_normal d e z ?r' (now_finalizer e) ?f (Some ?r') ?tr)
        = ?tr @ K8sList (getRRsetName d ?r' @ ''/'' @ spec_Type (Spec ?r')) # rest" by blast
    with u show "out_trace (Reconcile d e store) ! 3
               = K8sList (getRRsetName d ?r' @ ''/'' @ spec_Type (Spec r))"
      by (simp add: R AddFinalizer_fields)
  qed
  have dd: "update_add e = None \<and> syncReached d e store r z \<longrightarrow>
             out_trace (Reconcile d e store) ! 4
               = PdnsGet (zone_Name z) (getRRsetName d ?r') (spec_Type (Spec r))"
  proof (intro impI, elim conjE)
    assume u: "update_add e = None" and sr: "syncReached d e store r z"
    from Reconcile_sync_trace [of d e z ?r' "timeAtCheck d e r" "Some ?r'" "traceAtCheck d r"]
    obtain rest where "out_trace (Reconcile_sync d e z ?r' (timeAtCheck d e r) (Some ?r')
          (traceAtCheck d r))
        = traceAtCheck d r @ PdnsGet (zone_Name z) (getRRsetName d ?r') (spec_Type (Spec ?r')) # rest"
      by blast
    with assms(3) show "out_trace (Reconcile d e store) ! 4
               = PdnsGet (zone_Name z) (getRRsetName d ?r') (spec_Type (Spec r))"
      by (simp add: Reconcile_at_sync [OF sr] traceAtCheck_def AddFinalizer_fields)
  qed
  from pre a b c dd show ?thesis by blast
qed

theorem marker_attach_then_continue_witness:
  "loaded calm (Some (www\<lparr>Finalizers := []\<rparr>)) (www\<lparr>Finalizers := []\<rparr>) \<lparr>zone_Name = ''example.com''\<rparr>
   \<and> IsZero (DeletionTimestamp (www\<lparr>Finalizers := []\<rparr>))
   \<and> \<not> ContainsFinalizer (www\<lparr>Finalizers := []\<rparr>) (FINALIZER_NAME model_deps)
   \<and> update_add calm = None
   \<and> syncReached model_deps calm (Some (www\<lparr>Finalizers := []\<rparr>)) (www\<lparr>Finalizers := []\<rparr>)
        \<lparr>zone_Name = ''example.com''\<rparr>
   \<and> out_trace (Reconcile model_deps calm (Some (www\<lparr>Finalizers := []\<rparr>))) ! 3
       = K8sList ''www.example.com./A''
   \<and> out_trace (Reconcile model_deps calm (Some (www\<lparr>Finalizers := []\<rparr>))) ! 4
       = PdnsGet ''example.com'' ''www.example.com.'' ''A''"
proof -
  let ?r = "www\<lparr>Finalizers := []\<rparr>"
  let ?z = "\<lparr>zone_Name = ''example.com''\<rparr>"
  have l: "loaded calm (Some ?r) ?r ?z" by (simp add: loaded_def calm_def)
  have z: "IsZero (DeletionTimestamp ?r)" by (simp add: www_def)
  have c: "\<not> ContainsFinalizer ?r (FINALIZER_NAME model_deps)"
    by (simp add: ContainsFinalizer_def)
  have u: "update_add calm = None" by (simp add: calm_def)
  have s: "syncReached model_deps calm (Some ?r) ?r ?z"
    using l z u
    by (simp add: syncReached_def checkReached_def claimants_def calm_def www_def
          FAILED_STATUS_def)
  have n: "getRRsetName model_deps (AddFinalizer ?r (FINALIZER_NAME model_deps)) = ''www.example.com.''"
    by (simp add: model_deps_def model_getRRsetName_def model_makeCanonical_def
          AddFinalizer_def www_def)
  have t: "spec_Type (Spec ?r) = ''A''" by (simp add: www_def)
  have f: "SyncStatus (Status ?r) \<noteq> Some FAILED_STATUS" by (simp add: www_def)
  from marker_attach_then_continue [OF l z c] l z c u s n t f
  show ?thesis by simp
qed

subsection \<open>Write conflicts\<close>

text \<open>
  Claim C6 says that a write conflict on any of the engine's own writes is
  retried through an immediate requeue. Only the ownership update has that
  branch (lines 188-191). A conflict on the final status patch, and a conflict
  on the update that attaches the finalizer, end the invocation with the
  conflict returned as its error and with no requeue request in the result.
\<close>

theorem write_conflict_returned_counterexample:
  "IsConflict conflict
   \<and> out_ret (Reconcile model_deps (calm\<lparr>patch_status := Some conflict\<rparr>) (Some www))
      = Return \<lparr>Requeue = False, RequeueAfter = 0\<rparr> (Some conflict)
   \<and> returnsError (out_ret (Reconcile model_deps (calm\<lparr>patch_status := Some conflict\<rparr>)
        (Some www)))
   \<and> out_ret (Reconcile model_deps (calm\<lparr>update_add := Some conflict\<rparr>)
        (Some (www\<lparr>Finalizers := []\<rparr>)))
      = Return \<lparr>Requeue = False, RequeueAfter = 0\<rparr> (Some conflict)"
  by (simp add: run_defs scenario_defs returnsError_def)

text \<open>
  Claim C6, amended. A conflict on the ownership update ends the invocation
  with a requeue request and no error. A conflict on any other write of the
  engine (the update that attaches the finalizer, the update that detaches it
  during deletion or when the parent zone is missing, the status patch of the
  duplicate check, the final status patch) ends the invocation with the
  conflict returned as its error, and the result requests no requeue. In none
  of the six cases does the conflict reach the stored status: the stored
  status after the invocation is the prior one.
\<close>

theorem write_conflicts:
  assumes "IsConflict c"
  shows "(loaded e store r z \<and> IsZero (DeletionTimestamp r)
            \<and> \<not> ContainsFinalizer r (FINALIZER_NAME d) \<and> update_add e = Some c
          \<longrightarrow> out_ret (Reconcile d e store) = Return emptyResult (Some c)
              \<and> out_store (Reconcile d e store) = store)
       \<and> (loaded e store r z \<and> \<not> IsZero (DeletionTimestamp r)
            \<and> ContainsFinalizer r (FINALIZER_NAME d)
            \<and> (SyncStatus (Status r) = Some FAILED_STATUS \<or> records_delete e = None)
            \<and> update_remove e = Some c
          \<longrightarrow> out_ret (Reconcile d e store) = Return emptyResult (Some c)
              \<and> out_store (Reconcile d e store) = store)
       \<and> (store = Some r \<and> get_rrset_err e = None \<and> get_zone e = Inl zerr \<and> IsNotFound zerr
            \<and> ContainsFinalizer r (FINALIZER_NAME d) \<and> update_orphan e = Some c
          \<longrightarrow> out_ret (Reconcile d e store) = Return emptyResult (Some c)
              \<and> out_store (Reconcile d e store) = store)
       \<and> (checkReached d e store r z \<and> claimants e = Some n \<and> n > 1
            \<and> patch_duplicate e = Some c
          \<longrightarrow> out_ret (Reconcile d e store) = Return emptyResult (Some c)
              \<and> storedStatus (out_store (Reconcile d e store)) = Some (Status r))
       \<and> (syncReached d e store r z
            \<and> snd (createOrUpdateExternalResources d e z (AddFinalizer r (FINALIZER_NAME d)))
                = Some (ch, er)
            \<and> SetControllerReference d z (OwnerReferences r) = Inr refs
            \<and> update_owner e = Some c
          \<longrightarrow> out_ret (Reconcile d e store) = Return \<lparr>Requeue = True, RequeueAfter = 0\<rparr> None
              \<and> storedStatus (out_store (Reconcile d e store)) = Some (Status r))
       \<and> (syncReached d e store r z
            \<and> snd (createOrUpdateExternalResources d e z (AddFinalizer r (FINALIZER_NAME d)))
                = Some (ch, er)
            \<and> SetControllerReference d z (OwnerReferences r) = Inr refs
            \<and> update_owner e = None \<and> patch_status e = Some c
          \<longrightarrow> out_ret (Reconcile d e store) = Return emptyResult (Some c)
              \<and> storedStatus (out_store (Reconcile d e store)) = Some (Status r))"
proof (intro conjI impI; (elim conjE)?)
  assume l: "loaded e store r z" and "IsZero (DeletionTimestamp r)"
    "\<not> ContainsFinalizer r (FINALIZER_NAME d)" "update_add e = Some c"
  then show "out_ret (Reconcile d e store) = Return emptyResult (Some c)"
    "out_store (Reconcile d e store) = store"
    by (simp_all add: Reconcile_loaded [OF l] mk_def)
next
  assume l: "loaded e store r z" and "\<not> IsZero (DeletionTimestamp r)"
    "ContainsFinalizer r (FINALIZER_NAME d)"
    "SyncStatus (Status r) = Some FAILED_STATUS \<or> records_delete e = None"
    "update_remove e = Some c"
  then show "out_ret (Reconcile d e store) = Return emptyResult (Some c)"
    "out_store (Reconcile d e store) = store"
    by (auto simp add: Reconcile_loaded [OF l] Reconcile_deletion_def
          deleteExternalResources_def mk_def Let_def)
next
  assume "store = Some r" "get_rrset_err e = None" "get_zone e = Inl zerr" "IsNotFound zerr"
    "ContainsFinalizer r (FINALIZER_NAME d)" "update_orphan e = Some c"
  then show "out_ret (Reconcile d e store) = Return emptyResult (Some c)"
    "out_store (Reconcile d e store) = store"
    by (simp_all add: Reconcile_def k8s_Get_def Reconcile_zoneError_def mk_def Let_def)
next
  assume cr: "checkReached d e store r z" and "claimants e = Some n" "n > 1"
    "patch_duplicate e = Some c"
  then show "out_ret (Reconcile d e store) = Return emptyResult (Some c)"
    "storedStatus (out_store (Reconcile d e store)) = Some (Status r)"
    by (auto simp add: Reconcile_at_check [OF cr] claimants_def Reconcile_duplicate_def mk_def
          Let_def storedStatus_def AddFinalizer_fields split: sum.splits)
next
  assume sr: "syncReached d e store r z"
    and cu: "snd (createOrUpdateExternalResources d e z (AddFinalizer r (FINALIZER_NAME d)))
        = Some (ch, er)"
    and "SetControllerReference d z (OwnerReferences r) = Inr refs" "update_owner e = Some c"
  obtain t1 where "createOrUpdateExternalResources d e z (AddFinalizer r (FINALIZER_NAME d))
      = (t1, Some (ch, er))"
    using cu by (cases "createOrUpdateExternalResources d e z (AddFinalizer r (FINALIZER_NAME d))") simp
  with \<open>SetControllerReference d z (OwnerReferences r) = Inr refs\<close> \<open>update_owner e = Some c\<close>
    assms
  show "out_ret (Reconcile d e store) = Return \<lparr>Requeue = True, RequeueAfter = 0\<rparr> None"
    "storedStatus (out_store (Reconcile d e store)) = Some (Status r)"
    by (simp_all add: Reconcile_at_sync [OF sr] Reconcile_sync_def Reconcile_status_def
          ownObject_def mk_def Let_def storedStatus_def AddFinalizer_fields)
next
  assume sr: "syncReached d e store r z"
    and cu: "snd (createOrUpdateExternalResources d e z (AddFinalizer r (FINALIZER_NAME d)))
        = Some (ch, er)"
    and "SetControllerReference d z (OwnerReferences r) = Inr refs" "update_owner e = None"
      "patch_status e = Some c"
  obtain t1 where "createOrUpdateExternalResources d e z (AddFinalizer r (FINALIZER_NAME d))
      = (t1, Some (ch, er))"
    using cu by (cases "createOrUpdateExternalResources d e z (AddFinalizer r (FINALIZER_NAME d))") simp
  with \<open>SetControllerReference d z (OwnerReferences r) = Inr refs\<close> \<open>update_owner e = None\<close>
    \<open>patch_status e = Some c\<close>
  show "out_ret (Reconcile d e store) = Return emptyResult (Some c)"
    "storedStatus (out_store (Reconcile d e store)) = Some (Status r)"
    by (simp_all add: Reconcile_at_sync [OF sr] Reconcile_sync_def Reconcile_status_def
          ownObject_def mk_def Let_def storedStatus_def AddFinalizer_fields)
qed

theorem write_conflicts_witness:
  "IsConflict conflict
   \<and> syncReached model_deps (calm\<lparr>update_owner := Some conflict\<rparr>) (Some www) www
        \<lparr>zone_Name = ''example.com''\<rparr>
   \<and> update_owner (calm\<lparr>update_owner := Some conflict\<rparr>) = Some conflict
   \<and> out_ret (Reconcile model_deps (calm\<lparr>update_owner := Some conflict\<rparr>) (Some www))
      = Return \<lparr>Requeue = True, RequeueAfter = 0\<rparr> None
   \<and> storedStatus (out_store (Reconcile model_deps (calm\<lparr>update_owner := Some conflict\<rparr>)
        (Some www))) = Some (Status www)
   \<and> syncReached model_deps (calm\<lparr>patch_status := Some conflict\<rparr>) (Some www) www
        \<lparr>zone_Name = ''example.com''\<rparr>
   \<and> patch_status (calm\<lparr>patch_status := Some conflict\<rparr>) = Some conflict
   \<and> out_ret (Reconcile model_deps (calm\<lparr>patch_status := Some conflict\<rparr>) (Some www))
      = Return emptyResult (Some conflict)
   \<and> storedStatus (out_store (Reconcile model_deps (calm\<lparr>patch_status := Some conflict\<rparr>)
        (Some www))) = Some (Status www)
   \<and> \<not> ContainsFinalizer (www\<lparr>Finalizers := []\<rparr>) (FINALIZER_NAME model_deps)
   \<and> update_add (calm\<lparr>update_add := Some conflict\<rparr>) = Some conflict
   \<and> out_ret (Reconcile model_deps (calm\<lparr>update_add := Some conflict\<rparr>)
        (Some (www\<lparr>Finalizers := []\<rparr>)))
      = Return emptyResult (Some conflict)
   \<and> out_store (Reconcile model_deps (calm\<lparr>update_add := Some conflict\<rparr>)
        (Some (www\<lparr>Finalizers := []\<rparr>))) = Some (www\<lparr>Finalizers := []\<rparr>)"
proof -
  let ?z = "\<lparr>zone_Name = ''example.com''\<rparr>"
  let ?eo = "calm\<lparr>update_owner := Some conflict\<rparr>"
  let ?ep = "calm\<lparr>patch_status := Some conflict\<rparr>"
  let ?ea = "calm\<lparr>update_add := Some conflict\<rparr>"
  let ?bare = "www\<lparr>Finalizers := []\<rparr>"
  have ic: "IsConflict conflict" by (simp add: conflict_def)
  have o: "SetControllerReference model_deps ?z (OwnerReferences www) = Inr [''example.com'']"
    by (simp add: scenario_defs)
  have so: "syncReached model_deps ?eo (Some www) www ?z"
    by (simp add: syncReached_def checkReached_def loaded_def claimants_def calm_def www_def
          ContainsFinalizer_def model_deps_def FAILED_STATUS_def)
  have co: "snd (createOrUpdateExternalResources model_deps ?eo ?z
        (AddFinalizer www (FINALIZER_NAME model_deps))) = Some (True, None)"
    by (simp add: run_defs scenario_defs)
  have uo: "update_owner ?eo = Some conflict" by simp
  have sp: "syncReached model_deps ?ep (Some www) www ?z"
    by (simp add: syncReached_def checkReached_def loaded_def claimants_def calm_def www_def
          ContainsFinalizer_def model_deps_def FAILED_STATUS_def)
  have cp: "snd (createOrUpdateExternalResources model_deps ?ep ?z
        (AddFinalizer www (FINALIZER_NAME model_deps))) = Some (True, None)"
    by (simp add: run_defs scenario_defs)
  have up: "update_owner ?ep = None" "patch_status ?ep = Some conflict"
    by (simp_all add: calm_def)
  have la: "loaded ?ea (Some ?bare) ?bare ?z" by (simp add: loaded_def calm_def)
  have za: "IsZero (DeletionTimestamp ?bare)" by (simp add: www_def)
  have fa: "\<not> ContainsFinalizer ?bare (FINALIZER_NAME model_deps)"
    by (simp add: ContainsFinalizer_def)
  have ua: "update_add ?ea = Some conflict" by simp
  from write_conflicts [OF ic, where d = model_deps and e = ?eo and store = "Some www"
      and r = www and z = ?z and ch = True and er = None and refs = "[''example.com'']"]
    so co o uo
  have owner: "out_ret (Reconcile model_deps ?eo (Some www))
        = Return \<lparr>Requeue = True, RequeueAfter = 0\<rparr> None
      \<and> storedStatus (out_store (Reconcile model_deps ?eo (Some www))) = Some (Status www)"
    by blast
  from write_conflicts [OF ic, where d = model_deps and e = ?ep and store = "Some www"
      and r = www and z = ?z and ch = True and er = None and refs = "[''example.com'']"]
    sp cp o up
  have patch: "out_ret (Reconcile model_deps ?ep (Some www)) = Return emptyResult (Some conflict)
      \<and> storedStatus (out_store (Reconcile model_deps ?ep (Some www))) = Some (Status www)"
    by blast
  from write_conflicts [OF ic, where d = model_deps and e = ?ea and store = "Some ?bare"
      and r = ?bare and z = ?z]
    la za fa ua
  have attach: "out_ret (Reconcile model_deps ?ea (Some ?bare)) = Return emptyResult (Some conflict)
      \<and> out_store (Reconcile model_deps ?ea (Some ?bare)) = Some ?bare"
    by blast
  from ic so uo owner sp up patch fa ua attach show ?thesis by simp
qed

subsection \<open>The parent zone is missing\<close>

text \<open>
  Claim C7 says that whenever the lookup of the parent zone returns NotFound
  the invocation removes the finalizer if present, removes the metrics entry
  and returns success with a requeue delay. Two runs on the object of the
  end-to-end example show otherwise. When the update that stores the object
  without its finalizer answers with a conflict, the invocation returns that
  error, with no requeue delay and nothing stored. When the object carries no
  finalizer, the invocation only returns the requeue delay: it does not call
  \<^verbatim>\<open>removeRrsetMetrics\<close>.
\<close>

theorem zone_missing_counterexample:
  "IsNotFound gone
   \<and> Reconcile model_deps (calm\<lparr>get_zone := Inl gone, update_orphan := Some conflict\<rparr>)
       (Some (www\<lparr>Status := synced\<rparr>))
     = \<lparr>out_ret = Return \<lparr>Requeue = False, RequeueAfter = 0\<rparr> (Some conflict),
        out_store = Some (www\<lparr>Status := synced\<rparr>),
        out_trace = [K8sGet, K8sGetZone ''default'' ''example.com'',
                     K8sUpdate (www\<lparr>Finalizers := [], Status := synced\<rparr>)]\<rparr>
   \<and> Reconcile model_deps (calm\<lparr>get_zone := Inl gone\<rparr>) (Some (www\<lparr>Finalizers := []\<rparr>))
     = \<lparr>out_ret = Return \<lparr>Requeue = False, RequeueAfter = 2000000000\<rparr> None,
        out_store = Some (www\<lparr>Finalizers := []\<rparr>),
        out_trace = [K8sGet, K8sGetZone ''default'' ''example.com'']\<rparr>"
  by (simp add: run_defs scenario_defs)

text \<open>
  Claim C7, amended. For every reconcile in which the object is read and the
  lookup of the parent zone returns NotFound, no call is made on the external
  server. If the finalizer is present, the third call is the update that stores
  the object without it; when that update succeeds the metrics entry is
  removed and the invocation returns success with a requeue delay of two
  seconds; when it fails the invocation returns the update's error, the store
  is unchanged and the metrics entry is kept. If the finalizer is absent the
  invocation issues no further call and returns success with the requeue delay
  of two seconds.
\<close>

theorem zone_missing:
  assumes "store = Some r" and "get_rrset_err e = None" and "get_zone e = Inl zerr"
    and "IsNotFound zerr"
  shows "list_all (\<lambda>ev. \<not> isPdnsCall ev) (out_trace (Reconcile d e store))
     \<and> (if ContainsFinalizer r (FINALIZER_NAME d) then
          take 3 (out_trace (Reconcile d e store))
            = [K8sGet, K8sGetZone (Namespace r) (spec_ZoneRef (Spec r)),
               K8sUpdate (RemoveFinalizer r (FINALIZER_NAME d))]
          \<and> (case update_orphan e of
                None \<Rightarrow>
                  Reconcile d e store
                    = \<lparr>out_ret = Return \<lparr>Requeue = False, RequeueAfter = 2 * Second\<rparr> None,
                       out_store = Some (RemoveFinalizer r (FINALIZER_NAME d)),
                       out_trace = [K8sGet, K8sGetZone (Namespace r) (spec_ZoneRef (Spec r)),
                                    K8sUpdate (RemoveFinalizer r (FINALIZER_NAME d)),
                                    MetricsRemove (Name r) (Namespace r)]\<rparr>
              | Some er \<Rightarrow>
                  Reconcile d e store
                    = \<lparr>out_ret = Return emptyResult (Some er),
                       out_store = store,
                       out_trace = [K8sGet, K8sGetZone (Namespace r) (spec_ZoneRef (Spec r)),
                                    K8sUpdate (RemoveFinalizer r (FINALIZER_NAME d))]\<rparr>)
        else
          Reconcile d e store
            = \<lparr>out_ret = Return \<lparr>Requeue = False, RequeueAfter = 2 * Second\<rparr> None,
               out_store = store,
               out_trace = [K8sGet, K8sGetZone (Namespace r) (spec_ZoneRef (Spec r))]\<rparr>)"
  using assms
  by (simp add: Reconcile_def k8s_Get_def Reconcile_zoneError_def mk_def Let_def
        RemoveFinalizer_def split: option.splits)

theorem zone_missing_witness:
  "IsNotFound gone
   \<and> Reconcile model_deps (calm\<lparr>get_zone := Inl gone\<rparr>) (Some (www\<lparr>Status := synced\<rparr>))
     = \<lparr>out_ret = Return \<lparr>Requeue = False, RequeueAfter = 2000000000\<rparr> None,
        out_store = Some (www\<lparr>Finalizers := [], Status := synced\<rparr>),
        out_trace = [K8sGet, K8sGetZone ''default'' ''example.com'',
                     K8sUpdate (www\<lparr>Finalizers := [], Status := synced\<rparr>),
                     MetricsRemove ''www'' ''default'']\<rparr>"
proof -
  have g: "IsNotFound gone" by (simp add: gone_def)
  have a: "get_rrset_err (calm\<lparr>get_zone := Inl gone\<rparr>) = None" by (simp add: calm_def)
  have b: "get_zone (calm\<lparr>get_zone := Inl gone\<rparr>) = Inl gone" by simp
  have c: "ContainsFinalizer (www\<lparr>Status := synced\<rparr>) (FINALIZER_NAME model_deps)"
    by (simp add: ContainsFinalizer_def www_def model_deps_def)
  have u: "update_orphan (calm\<lparr>get_zone := Inl gone\<rparr>) = None" by (simp add: calm_def)
  have r: "RemoveFinalizer (www\<lparr>Status := synced\<rparr>) (FINALIZER_NAME model_deps)
             = www\<lparr>Finalizers := [], Status := synced\<rparr>"
    by (simp add: RemoveFinalizer_def www_def model_deps_def)
  have f: "Name (www\<lparr>Status := synced\<rparr>) = ''www''"
    "Namespace (www\<lparr>Status := synced\<rparr>) = ''default''"
    "spec_ZoneRef (Spec (www\<lparr>Status := synced\<rparr>)) = ''example.com''"
    by (simp_all add: www_def)
  from zone_missing [where d = model_deps and r = "www\<lparr>Status := synced\<rparr>", OF refl a b g]
    g c u r f show ?thesis
    by (simp add: Second_def)
qed

subsection \<open>Deletion in progress\<close>

text \<open>
  Claim C8. For every reconcile invocation of an object whose
  deletion-requested timestamp is non-zero, every call the invocation issues
  belongs to the finalization logic: the two lookups, the external delete, the
  update that stores the object without the finalizer, and the retraction of
  the metrics entry. No update stores an object that carries the finalizer
  (the marker is never re-attached), and there is no duplicate check, no
  fetch or apply on the external server, no ownership update and no status
  patch. The invocation returns; it does not panic.
\<close>

theorem deletion_runs_only_finalization:
  assumes "store = Some r" and "\<not> IsZero (DeletionTimestamp r)"
  shows "(\<forall>ev \<in> set (out_trace (Reconcile d e store)). finalizationOnly d r ev)
         \<and> out_ret (Reconcile d e store) \<noteq> Panic"
  using assms
  by (auto simp add: Reconcile_def k8s_Get_def Reconcile_zoneError_def Reconcile_deletion_def
        deleteExternalResources_def mk_def Let_def RemoveFinalizer_absent
        split: option.splits sum.splits)

theorem deletion_runs_only_finalization_witness:
  "\<not> IsZero (DeletionTimestamp (www\<lparr>DeletionTimestamp := Some 60\<rparr>))
   \<and> map callName (out_trace (Reconcile model_deps calm (Some (www\<lparr>DeletionTimestamp := Some 60\<rparr>))))
       = [''Get'', ''GetZone'', ''Records.Delete'', ''Update'', ''removeRrsetMetrics'']
   \<and> list_all (finalizationOnly model_deps (www\<lparr>DeletionTimestamp := Some 60\<rparr>))
         (out_trace (Reconcile model_deps calm (Some (www\<lparr>DeletionTimestamp := Some 60\<rparr>))))"
proof -
  have h: "\<not> IsZero (DeletionTimestamp (www\<lparr>DeletionTimestamp := Some 60\<rparr>))" by simp
  have t: "map callName (out_trace (Reconcile model_deps calm (Some (www\<lparr>DeletionTimestamp := Some 60\<rparr>))))
       = [''Get'', ''GetZone'', ''Records.Delete'', ''Update'', ''removeRrsetMetrics'']"
    by (simp add: Reconcile_def k8s_Get_def Reconcile_deletion_def deleteExternalResources_def
          mk_def Let_def www_def calm_def model_deps_def ContainsFinalizer_def FAILED_STATUS_def)
  from deletion_runs_only_finalization [OF refl h, of model_deps calm] h t show ?thesis
    by (simp add: list_all_iff)
qed

subsection \<open>The uniqueness index\<close>

text \<open>
  Claim C9. For every record-set object the indexer derives exactly one key
  string; the key is non-empty if and only if the object's sync status is
  unset or Succeeded. For an object whose status is Failed the key is the
  empty string, which no query of the duplicate check asks for: the object
  contributes no key that names a record-set.
\<close>

theorem index_key_nonempty_iff:
  "\<exists>k. indexFunc d r = [k]
       \<and> (k \<noteq> [] \<longleftrightarrow>
            (SyncStatus (Status r) = None \<or> SyncStatus (Status r) = Some SUCCEEDED_STATUS))
       \<and> (SyncStatus (Status r) = Some FAILED_STATUS \<longrightarrow> k = [])"
  by (simp add: indexFunc_def FAILED_STATUS_def SUCCEEDED_STATUS_def)

theorem index_key_nonempty_iff_witness:
  "SyncStatus (Status (www\<lparr>Status := synced\<lparr>SyncStatus := Some FAILED_STATUS\<rparr>\<rparr>)) = Some FAILED_STATUS
   \<and> indexFunc model_deps (www\<lparr>Status := synced\<lparr>SyncStatus := Some FAILED_STATUS\<rparr>\<rparr>) = [[]]
   \<and> indexFunc model_deps www = [''www.example.com./A'']"
proof -
  have a: "SyncStatus (Status (www\<lparr>Status := synced\<lparr>SyncStatus := Some FAILED_STATUS\<rparr>\<rparr>)) = Some FAILED_STATUS"
    by simp
  have b: "indexFunc model_deps www = [''www.example.com./A'']"
    by (simp add: indexFunc_def www_def model_deps_def model_getRRsetName_def
          model_makeCanonical_def)
  from index_key_nonempty_iff [of model_deps "www\<lparr>Status := synced\<lparr>SyncStatus := Some FAILED_STATUS\<rparr>\<rparr>"] a b
  show ?thesis by auto
qed

subsection \<open>The status written after a failed apply\<close>

text \<open>
  Claim C10 says that when the apply call fails the status patch writes the
  resolved name and keeps \<^verbatim>\<open>lastUpdateTime\<close> from the prior status. Line 106
  sets the local \<^verbatim>\<open>lastUpdateTime\<close> to the current time whenever the finalizer
  is attached: a synced object (prior \<^verbatim>\<open>lastUpdateTime\<close> 50) that has lost its
  finalizer, reconciled when the clock reads 101 with an apply call that is
  refused, ends with status Failed and \<^verbatim>\<open>lastUpdateTime\<close> 101.
\<close>

theorem failed_apply_refreshes_counterexample:
  "records_change (calm\<lparr>records_change := Some refused\<rparr>) = Some refused
   \<and> storedLastUpdateTime (Some (www\<lparr>Finalizers := [], Status := synced\<rparr>)) = Some 50
   \<and> map callName (out_trace (Reconcile model_deps (calm\<lparr>records_change := Some refused\<rparr>)
        (Some (www\<lparr>Finalizers := [], Status := synced\<rparr>))))
      = [''Get'', ''GetZone'', ''Update'', ''List'', ''Records.Get'', ''Records.Change'',
         ''Update'', ''Status.Patch'', ''updateRrsetsMetrics'']
   \<and> storedStatus (out_store (Reconcile model_deps (calm\<lparr>records_change := Some refused\<rparr>)
        (Some (www\<lparr>Finalizers := [], Status := synced\<rparr>))))
      = Some \<lparr>LastUpdateTime = Some 101, DnsEntryName = Some ''www.example.com.'',
               SyncStatus = Some ''Failed'', SyncErrorDescription = Some ''connection refused''\<rparr>"
  by (simp add: run_defs scenario_defs storedStatus_def storedLastUpdateTime_def)

text \<open>
  Claim C10, amended. For every reconcile that reaches the sync step and in
  which the apply call is issued and answered with an error (or the fetch is
  answered with an error other than NotFound), provided the ownership update
  succeeds: the status patch is issued and writes the resolved fully-qualified
  name; the \<^verbatim>\<open>lastUpdateTime\<close> it writes is the one of the prior status when the
  object already carried the finalizer and the prior status has one; it is the
  time read at the start of the invocation when the object carried the
  finalizer and the prior status has none, and the time read when the
  finalizer was attached when the object did not carry it. The failed apply
  never sets it to the time read after a change.
\<close>

theorem failed_apply_status:
  assumes "syncReached d e store r z"
    and "(snd (records_get e) = Some er \<and> \<not> IsNotFound er)
         \<or> (list_ex isPdnsChange (out_trace (Reconcile d e store)) \<and> records_change e = Some er)"
    and "SetControllerReference d z (OwnerReferences r) = Inr refs"
    and "update_owner e = None"
  shows "\<exists>p t. K8sStatusPatch p \<in> set (out_trace (Reconcile d e store))
           \<and> t = (if ContainsFinalizer r (FINALIZER_NAME d)
                   then (case LastUpdateTime (Status r) of None \<Rightarrow> now_start e | Some t' \<Rightarrow> t')
                   else now_finalizer e)
           \<and> LastUpdateTime (Status p) = Some t
           \<and> DnsEntryName (Status p)
               = Some (getRRsetName d ((AddFinalizer r (FINALIZER_NAME d))
                    \<lparr>OwnerReferences := refs,
                     Status := (Status r)\<lparr>LastUpdateTime := Some t\<rparr>\<rparr>))"
proof -
  from sync_call_fails [OF assms(1,2)]
  obtain t1 where c: "createOrUpdateExternalResources d e z (AddFinalizer r (FINALIZER_NAME d))
      = (t1, Some (False, Some er))" by blast
  show ?thesis
    using assms(3-4) c
    by (auto simp add: Reconcile_at_sync [OF assms(1)] Reconcile_sync_def Reconcile_status_def
          ownObject_def mk_def Let_def AddFinalizer_fields timeAtCheck_def
          split: option.splits)
qed

theorem failed_apply_status_witness:
  "syncReached model_deps (calm\<lparr>records_change := Some refused\<rparr>)
     (Some (www\<lparr>Status := synced\<rparr>)) (www\<lparr>Status := synced\<rparr>) \<lparr>zone_Name = ''example.com''\<rparr>
   \<and> list_ex isPdnsChange (out_trace (Reconcile model_deps
        (calm\<lparr>records_change := Some refused\<rparr>) (Some (www\<lparr>Status := synced\<rparr>))))
   \<and> records_change (calm\<lparr>records_change := Some refused\<rparr>) = Some refused
   \<and> (\<exists>p. K8sStatusPatch p \<in> set (out_trace (Reconcile model_deps
              (calm\<lparr>records_change := Some refused\<rparr>) (Some (www\<lparr>Status := synced\<rparr>))))
          \<and> LastUpdateTime (Status p) = Some 50
          \<and> DnsEntryName (Status p) = Some ''www.example.com.'')"
proof -
  let ?e = "calm\<lparr>records_change := Some refused\<rparr>"
  let ?z = "\<lparr>zone_Name = ''example.com''\<rparr>"
  let ?r = "www\<lparr>Status := synced\<rparr>"
  have s: "syncReached model_deps ?e (Some ?r) ?r ?z"
    by (simp add: syncReached_def checkReached_def loaded_def claimants_def calm_def www_def
          ContainsFinalizer_def model_deps_def FAILED_STATUS_def synced_def)
  have c: "list_ex isPdnsChange (out_trace (Reconcile model_deps ?e (Some ?r)))"
    by (simp add: run_defs scenario_defs)
  have a: "records_change ?e = Some refused" by simp
  have o: "SetControllerReference model_deps ?z (OwnerReferences ?r) = Inr [''example.com'']"
    by (simp add: scenario_defs)
  have u: "update_owner ?e = None" by (simp add: calm_def)
  have f: "ContainsFinalizer ?r (FINALIZER_NAME model_deps)"
    by (simp add: ContainsFinalizer_def www_def model_deps_def)
  have l: "LastUpdateTime (Status ?r) = Some 50" by (simp add: synced_def)
  have n: "\<And>t. getRRsetName model_deps ((AddFinalizer ?r (FINALIZER_NAME model_deps))
                    \<lparr>OwnerReferences := [''example.com''],
                     Status := (Status ?r)\<lparr>LastUpdateTime := Some t\<rparr>\<rparr>) = ''www.example.com.''"
    by (simp add: scenario_defs AddFinalizer_def)
  have "\<exists>p. K8sStatusPatch p \<in> set (out_trace (Reconcile model_deps ?e (Some ?r)))
          \<and> LastUpdateTime (Status p) = Some 50
          \<and> DnsEntryName (Status p) = Some ''www.example.com.''"
    using failed_apply_status [OF s _ o u, of refused] c a f l n by auto
  with s c a show ?thesis by simp
qed

end
